theory Spec2Isabelle
  imports Main
begin

section \<open>Byte strings and the Go library functions the configuration code calls\<close>

text \<open>
  A Go \<^verbatim>\<open>string\<close> is a sequence of bytes; it is modelled as a \<^typ>\<open>string\<close>
  (a list of 8-bit characters). A rune is a Unicode code point, modelled as a natural
  number.
\<close>

definition byte :: "char \<Rightarrow> nat" where
  "byte c = of_char c"

definition chr :: "nat \<Rightarrow> char" where
  "chr n = char_of n"

definition RuneError :: nat where
  "RuneError = 0xFFFD"

subsection \<open>\<^verbatim>\<open>utf8.DecodeRuneInString\<close>, \<^verbatim>\<open>utf8.DecodeLastRuneInString\<close>, \<^verbatim>\<open>utf8.AppendRune\<close>\<close>

text \<open>
  The decoder returns the rune and its width in bytes; an empty string gives
  \<open>(RuneError, 0)\<close>, an invalid or truncated encoding \<open>(RuneError, 1)\<close>. The tables
  \<^verbatim>\<open>first\<close> and \<^verbatim>\<open>acceptRanges\<close> of the Go source are written out as the
  comparisons they encode.
\<close>

fun DecodeRuneInString :: "string \<Rightarrow> nat \<times> nat" where
  "DecodeRuneInString [] = (RuneError, 0)"
| "DecodeRuneInString (c0 # cs) =
     (let s0 = byte c0 in
      if s0 < 0x80 then (s0, 1)
      else if s0 < 0xC2 \<or> 0xF4 < s0 then (RuneError, 1)
      else
        let sz = (if s0 < 0xE0 then 2 else if s0 < 0xF0 then 3 else 4) :: nat;
            lo = (if s0 = 0xE0 then 0xA0 else if s0 = 0xF0 then 0x90 else 0x80) :: nat;
            hi = (if s0 = 0xED then 0x9F else if s0 = 0xF4 then 0x8F else 0xBF) :: nat
        in
        if length (c0 # cs) < sz then (RuneError, 1)
        else
          let s1 = byte (cs ! 0) in
          if s1 < lo \<or> hi < s1 then (RuneError, 1)
          else if sz \<le> 2 then ((s0 mod 32) * 64 + s1 mod 64, 2)
          else
            let s2 = byte (cs ! 1) in
            if s2 < 0x80 \<or> 0xBF < s2 then (RuneError, 1)
            else if sz \<le> 3 then ((s0 mod 16) * 4096 + (s1 mod 64) * 64 + s2 mod 64, 3)
            else
              let s3 = byte (cs ! 2) in
              if s3 < 0x80 \<or> 0xBF < s3 then (RuneError, 1)
              else ((s0 mod 8) * 262144 + (s1 mod 64) * 4096 + (s2 mod 64) * 64 + s3 mod 64, 4))"

text \<open>\<^verbatim>\<open>utf8.RuneStart\<close>: the byte is not a continuation byte \<^verbatim>\<open>10xxxxxx\<close>.\<close>

definition RuneStart :: "char \<Rightarrow> bool" where
  "RuneStart c = (\<not> (0x80 \<le> byte c \<and> byte c < 0xC0))"

text \<open>
  The backward scan of \<^verbatim>\<open>DecodeLastRuneInString\<close>:
  \<^verbatim>\<open>for start--; start >= lim; start-- { if RuneStart(s[start]) { break } }\<close>,
  entered with \<open>start\<close> already decremented. The index may leave the loop as \<open>-1\<close>,
  so it is an integer; every call below passes \<open>lim \<ge> 0\<close>, so \<open>s[start]\<close> is read
  in range.
\<close>

function scanStart :: "string \<Rightarrow> int \<Rightarrow> int \<Rightarrow> int" where
  "scanStart s start lim =
     (if start \<ge> lim then
        (if RuneStart (s ! nat start) then start else scanStart s (start - 1) lim)
      else start)"
  by pat_completeness auto
termination
  by (relation "measure (\<lambda>(s, start, lim). nat (start + 1 - lim))") auto

declare scanStart.simps [simp del]

definition DecodeLastRuneInString :: "string \<Rightarrow> nat \<times> nat" where
  "DecodeLastRuneInString s =
     (let end = int (length s) in
      if end = 0 then (RuneError, 0)
      else
        let r = byte (s ! nat (end - 1)) in
        if r < 0x80 then (r, 1)
        else
          let lim = (if end - 4 < 0 then 0 else end - 4);
              start0 = scanStart s (end - 2) lim;
              start = (if start0 < 0 then 0 else start0);
              (r', size') = DecodeRuneInString (drop (nat start) s)
          in if start + int size' \<noteq> end then (RuneError, 1) else (r', size'))"

text \<open>\<^verbatim>\<open>utf8.AppendRune\<close>: the UTF-8 encoding of a rune; surrogates and values beyond
  \<open>U+10FFFF\<close> are encoded as \<open>RuneError\<close>.\<close>

definition AppendRune :: "nat \<Rightarrow> string" where
  "AppendRune r =
     (if r \<le> 0x7F then [chr r]
      else if r \<le> 0x7FF then [chr (0xC0 + r div 64), chr (0x80 + r mod 64)]
      else if r > 0x10FFFF \<or> (0xD800 \<le> r \<and> r \<le> 0xDFFF) then [chr 0xEF, chr 0xBF, chr 0xBD]
      else if r \<le> 0xFFFF then
        [chr (0xE0 + r div 4096), chr (0x80 + (r div 64) mod 64), chr (0x80 + r mod 64)]
      else
        [chr (0xF0 + r div 262144), chr (0x80 + (r div 4096) mod 64),
         chr (0x80 + (r div 64) mod 64), chr (0x80 + r mod 64)])"

subsection \<open>\<^verbatim>\<open>strings.HasPrefix\<close>, \<^verbatim>\<open>strings.Split\<close>, \<^verbatim>\<open>strings.Join\<close>\<close>

definition HasPrefix :: "string \<Rightarrow> string \<Rightarrow> bool" where
  "HasPrefix s pre = (length s \<ge> length pre \<and> take (length pre) s = pre)"

text \<open>The line separator \<^verbatim>\<open>"\n"\<close>.\<close>

definition nl :: char where
  "nl = CHR 0x0A"

text \<open>
  \<^verbatim>\<open>strings.Split(s, sep)\<close> for a one-byte separator: the pieces between the
  occurrences of the separator, so a string with \<open>n\<close> separators gives \<open>n + 1\<close> pieces
  and the empty string gives one empty piece.
\<close>

fun Split :: "string \<Rightarrow> char \<Rightarrow> string list" where
  "Split [] sep = [[]]"
| "Split (c # cs) sep =
     (if c = sep then [] # Split cs sep
      else (case Split cs sep of
              [] \<Rightarrow> [[c]]
            | l # ls \<Rightarrow> (c # l) # ls))"

fun Join :: "string list \<Rightarrow> string \<Rightarrow> string" where
  "Join [] sep = []"
| "Join [x] sep = x"
| "Join (x # y # ys) sep = x @ sep @ Join (y # ys) sep"

subsection \<open>\<^verbatim>\<open>unicode.IsSpace\<close> and \<^verbatim>\<open>strings.TrimSpace\<close>\<close>

definition IsSpace :: "nat \<Rightarrow> bool" where
  "IsSpace r =
     (if r \<le> 0xFF then r \<in> {0x09, 0x0A, 0x0B, 0x0C, 0x0D, 0x20, 0x85, 0xA0}
      else r = 0x1680 \<or> (0x2000 \<le> r \<and> r \<le> 0x200A) \<or> r = 0x2028 \<or> r = 0x2029
           \<or> r = 0x202F \<or> r = 0x205F \<or> r = 0x3000)"

lemma DecodeRuneInString_width_pos: "s \<noteq> [] \<Longrightarrow> 1 \<le> snd (DecodeRuneInString s)"
  by (cases s) (auto simp: Let_def)

lemma DecodeRuneInString_width_le: "snd (DecodeRuneInString s) \<le> length s"
proof (cases s)
  case Nil
  then show ?thesis by simp
next
  case (Cons c0 cs)
  consider "byte c0 < 0xE0" | "0xE0 \<le> byte c0" "byte c0 < 0xF0" | "0xF0 \<le> byte c0"
    by linarith
  then show ?thesis
  proof cases
    case 1
    then show ?thesis using Cons by (auto simp: Let_def Suc_le_eq)
  next
    case 2
    then show ?thesis using Cons by (auto simp: Let_def Suc_le_eq)
  next
    case 3
    then show ?thesis using Cons by (auto simp: Let_def Suc_le_eq)
  qed
qed

lemma scanStart_le: "scanStart s start lim \<le> start"
proof (induction s start lim rule: scanStart.induct)
  case (1 s start lim)
  show ?case
  proof (cases "start \<ge> lim \<and> \<not> RuneStart (s ! nat start)")
    case True
    then have "scanStart s start lim = scanStart s (start - 1) lim"
      by (subst scanStart.simps) simp
    moreover have "scanStart s (start - 1) lim \<le> start - 1"
      using True "1.IH" by simp
    ultimately show ?thesis by simp
  next
    case False
    then have "scanStart s start lim = start"
      by (subst scanStart.simps) auto
    then show ?thesis by simp
  qed
qed

lemma DecodeLastRuneInString_width_pos:
  assumes "s \<noteq> []"
  shows "1 \<le> snd (DecodeLastRuneInString s)"
proof -
  let ?end = "int (length s)"
  let ?lim = "if ?end - 4 < 0 then 0 else ?end - 4"
  let ?start0 = "scanStart s (?end - 2) ?lim"
  let ?start = "if ?start0 < 0 then 0 else ?start0"
  have lt: "nat ?start < length s"
    using scanStart_le [of s "?end - 2" ?lim] assms by (auto simp: nat_less_iff)
  then have "drop (nat ?start) s \<noteq> []" by simp
  then have "1 \<le> snd (DecodeRuneInString (drop (nat ?start) s))"
    by (rule DecodeRuneInString_width_pos)
  then show ?thesis
    using assms by (auto simp: DecodeLastRuneInString_def Let_def split: prod.splits)
qed

text \<open>
  \<^verbatim>\<open>strings.TrimLeftFunc(s, unicode.IsSpace)\<close>: the string from its first rune that
  is not white space (\<^verbatim>\<open>indexFunc\<close> ranges over the runes of the string, an invalid
  byte counting as \<open>RuneError\<close> of width one); the empty string when there is none.
\<close>

function TrimLeftFunc :: "string \<Rightarrow> string" where
  "TrimLeftFunc s =
     (if s = [] then []
      else
        let (r, width) = DecodeRuneInString s in
        if IsSpace r then TrimLeftFunc (drop width s) else s)"
  by pat_completeness auto
termination
proof (relation "measure length")
  show "wf (measure length)" by simp
next
  fix s :: string and x r width
  assume "s \<noteq> []" and "x = DecodeRuneInString s" and "(r, width) = x" and "IsSpace r"
  then have "1 \<le> width"
    using DecodeRuneInString_width_pos [of s] by (metis snd_conv)
  with \<open>s \<noteq> []\<close> show "(drop width s, s) \<in> measure length" by simp
qed

declare TrimLeftFunc.simps [simp del]

text \<open>
  \<^verbatim>\<open>lastIndexFunc(s, unicode.IsSpace, false)\<close>: the byte index at which the last rune
  that is not white space starts, scanning backwards with
  \<^verbatim>\<open>DecodeLastRuneInString\<close>; \<open>None\<close> stands for \<open>-1\<close>.
\<close>

function lastIndexFunc :: "string \<Rightarrow> nat option" where
  "lastIndexFunc s =
     (if s = [] then None
      else
        let (r, size') = DecodeLastRuneInString s;
            i = length s - size'
        in if \<not> IsSpace r then Some i else lastIndexFunc (take i s))"
  by pat_completeness auto
termination
proof (relation "measure length")
  show "wf (measure length)" by simp
next
  fix s :: string and x r size' i
  assume "s \<noteq> []" and "x = DecodeLastRuneInString s" and "(r, size') = x"
    and "i = length s - size'" and "\<not> \<not> IsSpace r"
  then have "1 \<le> size'"
    using DecodeLastRuneInString_width_pos [of s] by (metis snd_conv)
  with \<open>s \<noteq> []\<close> \<open>i = length s - size'\<close> show "(take i s, s) \<in> measure length" by simp
qed

declare lastIndexFunc.simps [simp del]

definition TrimRightFunc :: "string \<Rightarrow> string" where
  "TrimRightFunc s =
     (case lastIndexFunc s of
        None \<Rightarrow> take 0 s
      | Some i \<Rightarrow>
          if byte (s ! i) \<ge> 0x80 then take (i + snd (DecodeRuneInString (drop i s))) s
          else take (i + 1) s)"

text \<open>
  \<^verbatim>\<open>strings.TrimSpace\<close>. The Go function first strips ASCII white space byte by byte
  and hands over to \<^verbatim>\<open>TrimFunc(s, unicode.IsSpace)\<close> at the first non-ASCII byte;
  on ASCII bytes the two agree, so the function is modelled as \<^verbatim>\<open>TrimFunc\<close>, that
  is \<^verbatim>\<open>TrimRightFunc(TrimLeftFunc(s))\<close>.
\<close>

definition TrimSpace :: "string \<Rightarrow> string" where
  "TrimSpace s = TrimRightFunc (TrimLeftFunc s)"

subsection \<open>\<^verbatim>\<open>fmt.Sprintf("%q", s)\<close>, that is \<^verbatim>\<open>strconv.Quote\<close>\<close>

definition dq :: char where
  "dq = CHR 0x22"

definition bs :: char where
  "bs = CHR 0x5C"

definition lowerhex :: string where
  "lowerhex = ''0123456789abcdef''"

text \<open>\<^verbatim>\<open>lowerhex[x & 0xF]\<close>\<close>

definition hexdigit :: "nat \<Rightarrow> char" where
  "hexdigit x = lowerhex ! (x mod 16)"

text \<open>
  \<^verbatim>\<open>strconv.IsPrint\<close>. Latin-1 is decided by the comparisons of the Go source; beyond
  \<open>U+00FF\<close> the Go function searches its generated tables \<^verbatim>\<open>isPrint16\<close>,
  \<^verbatim>\<open>isNotPrint16\<close>, \<^verbatim>\<open>isPrint32\<close>, \<^verbatim>\<open>isNotPrint32\<close>, which are taken as the
  parameter \<open>tbl\<close>.
\<close>

definition IsPrint :: "(nat \<Rightarrow> bool) \<Rightarrow> nat \<Rightarrow> bool" where
  "IsPrint tbl r =
     (if r \<le> 0xFF then
        (if 0x20 \<le> r \<and> r \<le> 0x7E then True
         else if 0xA1 \<le> r \<and> r \<le> 0xFF then r \<noteq> 0xAD
         else False)
      else tbl r)"

definition ValidRune :: "nat \<Rightarrow> bool" where
  "ValidRune r = (r < 0xD800 \<or> (0xDFFF < r \<and> r \<le> 0x10FFFF))"

text \<open>\<^verbatim>\<open>appendEscapedRune(buf, r, '"', false, false)\<close>, returning what is appended.\<close>

definition appendEscapedRune :: "(nat \<Rightarrow> bool) \<Rightarrow> nat \<Rightarrow> string" where
  "appendEscapedRune tbl r =
     (if r = byte dq \<or> r = byte bs then [bs, chr r]
      else if IsPrint tbl r then AppendRune r
      else if r = 0x07 then [bs, CHR ''a'']
      else if r = 0x08 then [bs, CHR ''b'']
      else if r = 0x0C then [bs, CHR ''f'']
      else if r = 0x0A then [bs, CHR ''n'']
      else if r = 0x0D then [bs, CHR ''r'']
      else if r = 0x09 then [bs, CHR ''t'']
      else if r = 0x0B then [bs, CHR ''v'']
      else if r < 0x20 \<or> r = 0x7F then [bs, CHR ''x'', hexdigit (r div 16), hexdigit r]
      else if \<not> ValidRune r then
        [bs, CHR ''u'', hexdigit (RuneError div 4096), hexdigit (RuneError div 256),
         hexdigit (RuneError div 16), hexdigit RuneError]
      else if r < 0x10000 then
        [bs, CHR ''u'', hexdigit (r div 4096), hexdigit (r div 256), hexdigit (r div 16),
         hexdigit r]
      else
        [bs, CHR ''U'', hexdigit (r div 268435456), hexdigit (r div 16777216),
         hexdigit (r div 1048576), hexdigit (r div 65536), hexdigit (r div 4096),
         hexdigit (r div 256), hexdigit (r div 16), hexdigit r])"

text \<open>
  The loop of \<^verbatim>\<open>appendQuotedWith\<close>: one rune at a time, an invalid byte written as
  \<^verbatim>\<open>\xhh\<close>.
\<close>

function quoteBody :: "(nat \<Rightarrow> bool) \<Rightarrow> string \<Rightarrow> string" where
  "quoteBody tbl s =
     (if s = [] then []
      else
        let (r, width) = (if byte (hd s) \<ge> 0x80 then DecodeRuneInString s else (byte (hd s), 1))
        in (if width = 1 \<and> r = RuneError
            then [bs, CHR ''x'', hexdigit (byte (hd s) div 16), hexdigit (byte (hd s))]
            else appendEscapedRune tbl r)
           @ quoteBody tbl (drop width s))"
  by pat_completeness auto
termination
proof (relation "measure (\<lambda>(tbl, s). length s)")
  show "wf (measure (\<lambda>(tbl :: nat \<Rightarrow> bool, s :: string). length s))" by simp
next
  fix tbl :: "nat \<Rightarrow> bool" and s :: string and x r width
  assume ne: "s \<noteq> []"
    and x: "x = (if 128 \<le> byte (hd s) then DecodeRuneInString s else (byte (hd s), 1))"
    and rw: "(r, width) = x"
  have "1 \<le> width"
  proof (cases "128 \<le> byte (hd s)")
    case True
    with x rw have "width = snd (DecodeRuneInString s)" by (metis snd_conv)
    with ne show ?thesis using DecodeRuneInString_width_pos by simp
  next
    case False
    with x rw show ?thesis by simp
  qed
  with ne show "((tbl, drop width s), (tbl, s)) \<in> measure (\<lambda>(tbl, s). length s)" by simp
qed

declare quoteBody.simps [simp del]

definition Quote :: "(nat \<Rightarrow> bool) \<Rightarrow> string \<Rightarrow> string" where
  "Quote tbl s = [dq] @ quoteBody tbl s @ [dq]"

section \<open>The line rewrite of \<^verbatim>\<open>SetIssuePrefix\<close>\<close>

text \<open>\<^verbatim>\<open>fmt.Sprintf("issue-prefix: %q", prefix)\<close>\<close>

definition prefixLine :: "(nat \<Rightarrow> bool) \<Rightarrow> string \<Rightarrow> string" where
  "prefixLine tbl prefix = ''issue-prefix: '' @ Quote tbl prefix"

text \<open>The test of the loop body: the trimmed line starts with \<^verbatim>\<open>issue-prefix:\<close> and
  does not start with \<^verbatim>\<open>#\<close>.\<close>

definition isPrefixLine :: "string \<Rightarrow> bool" where
  "isPrefixLine line =
     (let trimmed = TrimSpace line in
      HasPrefix trimmed ''issue-prefix:'' \<and> \<not> HasPrefix trimmed ''#'')"

text \<open>
  The loop \<^verbatim>\<open>for i, line := range lines\<close>: the first line that passes the test is
  overwritten and the loop stops; the result carries \<^verbatim>\<open>found\<close>.
\<close>

fun replaceFirst :: "string \<Rightarrow> string list \<Rightarrow> string list \<times> bool" where
  "replaceFirst new [] = ([], False)"
| "replaceFirst new (line # rest) =
     (if isPrefixLine line then (new # rest, True)
      else (let (rest', found) = replaceFirst new rest in (line # rest', found)))"

text \<open>
  From the file content read to the content written (lines 218 to 243 of
  \<^verbatim>\<open>config.go\<close>): split into lines unless the content is empty, rewrite the first
  declaration or put a new one with a blank line in front, join with newlines.
\<close>

definition rewriteContent :: "(nat \<Rightarrow> bool) \<Rightarrow> string \<Rightarrow> string \<Rightarrow> string" where
  "rewriteContent tbl prefix content =
     (let lines = (if content \<noteq> [] then Split content nl else []);
          (lines1, found) = replaceFirst (prefixLine tbl prefix) lines;
          lines2 = (if \<not> found then
                      (if length lines1 > 0 then [prefixLine tbl prefix, []] @ lines1
                       else [prefixLine tbl prefix])
                    else lines1)
      in Join lines2 [nl])"

section \<open>Configuration values and the viper instance\<close>

text \<open>
  The values a configuration key can hold (Go's \<^verbatim>\<open>interface{}\<close> as far as this
  program stores it: strings, booleans, integers); a missing value (\<^verbatim>\<open>nil\<close>) is
  \<open>None\<close>.
\<close>

datatype cfgval = VStr string | VBool bool | VInt int

type_synonym path = "string list"

text \<open>
  The fields of \<^verbatim>\<open>viper.Viper\<close> that the program sets and reads. Keys contain no
  key delimiter (\<^verbatim>\<open>.\<close>) in this program, so every layer is a flat map.
\<close>

record viper =
  configFile :: "path option"
  envPrefix :: string
  envKeyReplacer :: "(char \<times> char) list"
  automaticEnvApplied :: bool
  defaults :: "string \<rightharpoonup> cfgval"
  envBindings :: "string \<rightharpoonup> string list"
  config :: "string \<rightharpoonup> cfgval"
  override :: "string \<rightharpoonup> cfgval"

text \<open>\<^verbatim>\<open>viper.New()\<close>\<close>

definition New :: viper where
  "New = \<lparr> configFile = None, envPrefix = [], envKeyReplacer = [],
           automaticEnvApplied = False, defaults = Map.empty, envBindings = Map.empty,
           config = Map.empty, override = Map.empty \<rparr>"

text \<open>
  \<^verbatim>\<open>strings.ToLower\<close> and \<^verbatim>\<open>strings.ToUpper\<close> on ASCII letters. The Go functions
  also fold letters beyond ASCII; this model leaves every other byte as it is, so it
  agrees with Go on ASCII strings only. Every key and variable name that the program
  and the properties below pass to them is ASCII.
\<close>

definition ToLower :: "string \<Rightarrow> string" where
  "ToLower s = map (\<lambda>c. if 0x41 \<le> byte c \<and> byte c \<le> 0x5A then chr (byte c + 32) else c) s"

definition ToUpper :: "string \<Rightarrow> string" where
  "ToUpper s = map (\<lambda>c. if 0x61 \<le> byte c \<and> byte c \<le> 0x7A then chr (byte c - 32) else c) s"

text \<open>\<^verbatim>\<open>strings.NewReplacer\<close> with one-byte pairs: each byte is replaced by the first
  pair that names it.\<close>

definition Replace :: "(char \<times> char) list \<Rightarrow> string \<Rightarrow> string" where
  "Replace pairs s = map (\<lambda>c. case map_of pairs c of None \<Rightarrow> c | Some c' \<Rightarrow> c') s"

definition SetConfigFile :: "path \<Rightarrow> viper \<Rightarrow> viper" where
  "SetConfigFile p vp = vp\<lparr>configFile := Some p\<rparr>"

definition SetEnvPrefix :: "string \<Rightarrow> viper \<Rightarrow> viper" where
  "SetEnvPrefix pre vp = (if pre \<noteq> [] then vp\<lparr>envPrefix := pre\<rparr> else vp)"

definition SetEnvKeyReplacer :: "(char \<times> char) list \<Rightarrow> viper \<Rightarrow> viper" where
  "SetEnvKeyReplacer r vp = vp\<lparr>envKeyReplacer := r\<rparr>"

definition AutomaticEnv :: "viper \<Rightarrow> viper" where
  "AutomaticEnv vp = vp\<lparr>automaticEnvApplied := True\<rparr>"

definition SetDefault :: "string \<Rightarrow> cfgval \<Rightarrow> viper \<Rightarrow> viper" where
  "SetDefault key val vp = vp\<lparr>defaults := (defaults vp)(ToLower key \<mapsto> val)\<rparr>"

text \<open>\<^verbatim>\<open>v.BindEnv(key, name)\<close>: the explicit variable name is appended to the names bound
  to the key.\<close>

definition BindEnv :: "string \<Rightarrow> string \<Rightarrow> viper \<Rightarrow> viper" where
  "BindEnv key name vp =
     vp\<lparr>envBindings := (envBindings vp)(ToLower key \<mapsto>
          (case envBindings vp (ToLower key) of None \<Rightarrow> [] | Some ns \<Rightarrow> ns) @ [name])\<rparr>"

definition viper_Set :: "string \<Rightarrow> cfgval \<Rightarrow> viper \<Rightarrow> viper" where
  "viper_Set key val vp = vp\<lparr>override := (override vp)(ToLower key \<mapsto> val)\<rparr>"

definition mergeWithEnvPrefix :: "viper \<Rightarrow> string \<Rightarrow> string" where
  "mergeWithEnvPrefix vp k =
     (if envPrefix vp \<noteq> [] then ToUpper (envPrefix vp @ ''_'' @ k) else ToUpper k)"

text \<open>
  \<^verbatim>\<open>v.getEnv\<close>: the replacer is applied to the variable name, and the variable counts
  as set only when its value is not empty (\<^verbatim>\<open>AllowEmptyEnv\<close> is never switched on by
  this program).
\<close>

definition getEnv :: "viper \<Rightarrow> (string \<rightharpoonup> string) \<Rightarrow> string \<Rightarrow> string option" where
  "getEnv vp env k =
     (case env (Replace (envKeyReplacer vp) k) of
        None \<Rightarrow> None
      | Some val \<Rightarrow> if val \<noteq> [] then Some val else None)"

text \<open>The first bound variable that is set.\<close>

fun firstEnv :: "viper \<Rightarrow> (string \<rightharpoonup> string) \<Rightarrow> string list \<Rightarrow> string option" where
  "firstEnv vp env [] = None"
| "firstEnv vp env (k # ks) =
     (case getEnv vp env k of Some val \<Rightarrow> Some val | None \<Rightarrow> firstEnv vp env ks)"

text \<open>
  \<^verbatim>\<open>v.find\<close>, the precedence of the layers this program uses: explicit \<^verbatim>\<open>Set\<close>,
  environment (automatic, then bound names), configuration file, defaults.
\<close>

definition find_key :: "viper \<Rightarrow> (string \<rightharpoonup> string) \<Rightarrow> string \<Rightarrow> cfgval option" where
  "find_key vp env lcaseKey =
     (case override vp lcaseKey of
        Some val \<Rightarrow> Some val
      | None \<Rightarrow>
        (case (if automaticEnvApplied vp then getEnv vp env (mergeWithEnvPrefix vp lcaseKey)
               else None) of
           Some val \<Rightarrow> Some (VStr val)
         | None \<Rightarrow>
           (case firstEnv vp env (case envBindings vp lcaseKey of None \<Rightarrow> [] | Some ns \<Rightarrow> ns) of
              Some val \<Rightarrow> Some (VStr val)
            | None \<Rightarrow>
              (case config vp lcaseKey of
                 Some val \<Rightarrow> Some val
               | None \<Rightarrow> defaults vp lcaseKey))))"

definition viper_Get :: "viper \<Rightarrow> (string \<rightharpoonup> string) \<Rightarrow> string \<Rightarrow> cfgval option" where
  "viper_Get vp env key = find_key vp env (ToLower key)"

subsection \<open>The conversions of the typed getters (package \<^verbatim>\<open>cast\<close>)\<close>

fun digits :: "nat \<Rightarrow> string" where
  "digits n = (if n < 10 then [chr (48 + n)] else digits (n div 10) @ [chr (48 + n mod 10)])"

declare digits.simps [simp del]

definition Itoa :: "int \<Rightarrow> string" where
  "Itoa i = (if i < 0 then CHR ''-'' # digits (nat (- i)) else digits (nat i))"

text \<open>\<^verbatim>\<open>cast.ToString\<close>; \<^verbatim>\<open>nil\<close> gives the empty string.\<close>

fun ToString :: "cfgval option \<Rightarrow> string" where
  "ToString None = []"
| "ToString (Some (VStr s)) = s"
| "ToString (Some (VBool b)) = (if b then ''true'' else ''false'')"
| "ToString (Some (VInt i)) = Itoa i"

text \<open>\<^verbatim>\<open>strconv.ParseBool\<close>; \<open>None\<close> is the syntax error.\<close>

definition ParseBool :: "string \<Rightarrow> bool option" where
  "ParseBool str =
     (if str \<in> set [''1'', ''t'', ''T'', ''TRUE'', ''true'', ''True''] then Some True
      else if str \<in> set [''0'', ''f'', ''F'', ''FALSE'', ''false'', ''False''] then Some False
      else None)"

text \<open>\<^verbatim>\<open>cast.ToBool\<close>; a conversion error gives \<^verbatim>\<open>false\<close>.\<close>

fun ToBool :: "cfgval option \<Rightarrow> bool" where
  "ToBool None = False"
| "ToBool (Some (VBool b)) = b"
| "ToBool (Some (VInt i)) = (i \<noteq> 0)"
| "ToBool (Some (VStr s)) = (case ParseBool s of Some b \<Rightarrow> b | None \<Rightarrow> False)"

text \<open>The runes of a string, as \<^verbatim>\<open>for _, r := range s\<close> yields them.\<close>

function runes :: "string \<Rightarrow> nat list" where
  "runes s =
     (if s = [] then []
      else let (r, width) = DecodeRuneInString s in r # runes (drop width s))"
  by pat_completeness auto
termination
proof (relation "measure length")
  show "wf (measure length)" by simp
next
  fix s :: string and x r width
  assume "s \<noteq> []" and "x = DecodeRuneInString s" and "(r, width) = x"
  then have "1 \<le> width"
    using DecodeRuneInString_width_pos [of s] by (metis snd_conv)
  with \<open>s \<noteq> []\<close> show "(drop width s, s) \<in> measure length" by simp
qed

declare runes.simps [simp del]

text \<open>\<^verbatim>\<open>strings.ContainsAny(s, "nsu\<mu>mh")\<close>, the micro sign being \<open>U+00B5\<close>.\<close>

definition containsUnitLetter :: "string \<Rightarrow> bool" where
  "containsUnitLetter s = (\<exists>r \<in> set (runes s). r \<in> set [0x6E, 0x73, 0x75, 0xB5, 0x6D, 0x68])"

definition isDigit :: "char \<Rightarrow> bool" where
  "isDigit c = (0x30 \<le> byte c \<and> byte c \<le> 0x39)"

text \<open>\<^verbatim>\<open>leadingInt\<close> of package \<^verbatim>\<open>time\<close>, with the value read so far as an
  argument; \<open>None\<close> is the overflow error.\<close>

fun leadingInt :: "nat \<Rightarrow> string \<Rightarrow> (nat \<times> string) option" where
  "leadingInt x [] = Some (x, [])"
| "leadingInt x (c # cs) =
     (if \<not> isDigit c then Some (x, c # cs)
      else if x > 2 ^ 63 div 10 then None
      else let x' = x * 10 + byte c - 0x30 in
           if x' > 2 ^ 63 then None else leadingInt x' cs)"

lemma leadingInt_length: "leadingInt x s = Some (y, rem) \<Longrightarrow> length rem \<le> length s"
proof (induction s arbitrary: x)
  case Nil
  then show ?case by simp
next
  case (Cons c cs)
  show ?case
  proof (cases "isDigit c")
    case False
    with Cons.prems show ?thesis by simp
  next
    case True
    with Cons.prems have "leadingInt (x * 10 + byte c - 0x30) cs = Some (y, rem)"
      by (simp add: Let_def split: if_splits)
    then have "length rem \<le> length cs" by (rule Cons.IH)
    then show ?thesis by simp
  qed
qed

text \<open>\<^verbatim>\<open>unitMap\<close>, in nanoseconds; the two spellings of microseconds are \<open>U+00B5\<close> and
  \<open>U+03BC\<close> followed by \<^verbatim>\<open>s\<close>.\<close>

definition unitMap :: "string \<Rightarrow> nat option" where
  "unitMap u =
     (if u = ''ns'' then Some 1
      else if u = ''us'' then Some 1000
      else if u = [CHR 0xC2, CHR 0xB5, CHR ''s''] then Some 1000
      else if u = [CHR 0xCE, CHR 0xBC, CHR ''s''] then Some 1000
      else if u = ''ms'' then Some 1000000
      else if u = ''s'' then Some 1000000000
      else if u = ''m'' then Some 60000000000
      else if u = ''h'' then Some 3600000000000
      else None)"

text \<open>
  The result of \<^verbatim>\<open>time.ParseDuration\<close>: a number of nanoseconds, an error, or
  \<open>DurFraction\<close> for an input with a fractional part, which Go evaluates in
  \<^verbatim>\<open>float64\<close> and which is left out of this model.
\<close>

datatype durres = Dur int | DurErr | DurFraction

definition isUnitChar :: "char \<Rightarrow> bool" where
  "isUnitChar c = (\<not> (c = CHR ''.'' \<or> isDigit c))"

text \<open>The loop \<^verbatim>\<open>for s != ""\<close> of \<^verbatim>\<open>ParseDuration\<close>, with the sum \<open>d\<close> so far;
  it returns the sum, which the caller signs and bounds. The sum is a \<^verbatim>\<open>uint64\<close>, so
  \<^verbatim>\<open>d += v\<close> wraps at \<open>2\<^sup>6\<^sup>4\<close> before it is compared with \<open>2\<^sup>6\<^sup>3\<close>.\<close>

function parseSegments :: "nat \<Rightarrow> string \<Rightarrow> nat + durres" where
  "parseSegments d s =
     (if s = [] then Inl d
      else if \<not> (hd s = CHR ''.'' \<or> isDigit (hd s)) then Inr DurErr
      else
        (case leadingInt 0 s of
           None \<Rightarrow> Inr DurErr
         | Some (v, s1) \<Rightarrow>
             if s1 \<noteq> [] \<and> hd s1 = CHR ''.'' then Inr DurFraction
             else if length s = length s1 then Inr DurErr
             else
               let u = takeWhile isUnitChar s1;
                   s2 = dropWhile isUnitChar s1
               in if u = [] then Inr DurErr
                  else
                    (case unitMap u of
                       None \<Rightarrow> Inr DurErr
                     | Some unit \<Rightarrow>
                         if v > 2 ^ 63 div unit then Inr DurErr
                         else
                           let d' = (d + v * unit) mod 2 ^ 64 in
                           if d' > 2 ^ 63 then Inr DurErr
                           else parseSegments d' s2)))"
  by pat_completeness auto
termination
proof (relation "measure (\<lambda>(d, s). length s)")
  show "wf (measure (\<lambda>(d :: nat, s :: string). length s))" by simp
next
  fix d d' :: nat and s :: string and x2 v s1 u s2
  assume li: "leadingInt 0 s = Some x2" "(v, s1) = x2"
    and ne: "length s \<noteq> length s1"
    and s2: "s2 = dropWhile isUnitChar s1"
  from li have "length s1 \<le> length s"
    using leadingInt_length [of 0 s v s1] by simp
  moreover have "length s2 \<le> length s1"
    using s2 by (simp add: length_dropWhile_le)
  ultimately show "((d', s2), (d, s)) \<in> measure (\<lambda>(d, s). length s)"
    using ne by simp
qed

declare parseSegments.simps [simp del]

definition ParseDuration :: "string \<Rightarrow> durres" where
  "ParseDuration orig =
     (let neg = (orig \<noteq> [] \<and> hd orig = CHR ''-'');
          s = (if orig \<noteq> [] \<and> (hd orig = CHR ''-'' \<or> hd orig = CHR ''+'') then tl orig else orig)
      in if s = ''0'' then Dur 0
         else if s = [] then DurErr
         else
           (case parseSegments 0 s of
              Inr e \<Rightarrow> e
            | Inl d \<Rightarrow>
                if neg then Dur (- int d)
                else if d > 2 ^ 63 - 1 then DurErr
                else Dur (int d)))"

text \<open>
  \<^verbatim>\<open>cast.ToDuration\<close> in nanoseconds: a string without a unit letter is read as
  nanoseconds, a conversion error gives zero. \<open>None\<close> marks the fractional inputs that
  the model of \<^verbatim>\<open>ParseDuration\<close> leaves out.
\<close>

fun ToDuration :: "cfgval option \<Rightarrow> int option" where
  "ToDuration None = Some 0"
| "ToDuration (Some (VBool b)) = Some 0"
| "ToDuration (Some (VInt i)) = Some i"
| "ToDuration (Some (VStr s)) =
     (case (if containsUnitLetter s then ParseDuration s else ParseDuration (s @ ''ns'')) of
        Dur n \<Rightarrow> Some n
      | DurErr \<Rightarrow> Some 0
      | DurFraction \<Rightarrow> None)"

section \<open>The process state: the singleton, the file system, the environment\<close>

text \<open>
  A path is the list of its components below the root, so \<^verbatim>\<open>filepath.Dir\<close> drops the
  last component and the root (the empty list) is its own parent;
  \<^verbatim>\<open>filepath.Join(dir, name)\<close> appends a component.
\<close>

definition filepath_Dir :: "path \<Rightarrow> path" where
  "filepath_Dir dir = butlast dir"

lemma filepath_Dir_shorter: "dir \<noteq> filepath_Dir dir \<Longrightarrow> length (filepath_Dir dir) < length dir"
  by (cases dir) (auto simp: filepath_Dir_def)

datatype node = File string | Dir

datatype error =
    EmptyPrefix
  | GetwdFailed
  | WriteTempFailed
  | RenameFailed
  | ReadConfigFailed
  | QueryFailed string

text \<open>
  The state that the functions of package \<^verbatim>\<open>config\<close> read and change: the package
  variable \<^verbatim>\<open>v\<close> (\<open>None\<close> is \<^verbatim>\<open>nil\<close>), and what the operating system answers:
  the working directory (\<open>None\<close> when \<^verbatim>\<open>os.Getwd\<close> fails), the user configuration and
  home directories, the files, the environment variables, and which paths refuse a
  write or a rename.
\<close>

record state =
  v_singleton :: "viper option"
  getwd :: "path option"
  userConfigDir :: "path option"
  userHomeDir :: "path option"
  files :: "path \<rightharpoonup> node"
  environ :: "string \<rightharpoonup> string"
  writeFails :: "path \<Rightarrow> bool"
  renameFails :: "path \<Rightarrow> bool"

text \<open>
  What the program takes from outside the shown sources: the print tables of
  \<^verbatim>\<open>strconv\<close>, the YAML parser behind \<^verbatim>\<open>ReadInConfig\<close> (\<open>None\<close> is a parse error),
  and \<^verbatim>\<open>utils.ExtractIssuePrefix\<close>.
\<close>

record ext =
  printTable :: "nat \<Rightarrow> bool"
  parseYAML :: "string \<Rightarrow> (string \<rightharpoonup> cfgval) option"
  ExtractIssuePrefix :: "string \<Rightarrow> string"

subsection \<open>The getters and \<^verbatim>\<open>Set\<close>\<close>

definition Get :: "string \<Rightarrow> state \<Rightarrow> cfgval option" where
  "Get key st =
     (case v_singleton st of None \<Rightarrow> None | Some vp \<Rightarrow> viper_Get vp (environ st) key)"

definition GetString :: "string \<Rightarrow> state \<Rightarrow> string" where
  "GetString key st =
     (case v_singleton st of
        None \<Rightarrow> []
      | Some vp \<Rightarrow> ToString (viper_Get vp (environ st) key))"

definition GetBool :: "string \<Rightarrow> state \<Rightarrow> bool" where
  "GetBool key st =
     (case v_singleton st of
        None \<Rightarrow> False
      | Some vp \<Rightarrow> ToBool (viper_Get vp (environ st) key))"

definition GetDuration :: "string \<Rightarrow> state \<Rightarrow> int option" where
  "GetDuration key st =
     (case v_singleton st of
        None \<Rightarrow> Some 0
      | Some vp \<Rightarrow> ToDuration (viper_Get vp (environ st) key))"

definition Set :: "string \<Rightarrow> cfgval \<Rightarrow> state \<Rightarrow> state" where
  "Set key val st =
     (case v_singleton st of
        None \<Rightarrow> st
      | Some vp \<Rightarrow> st\<lparr>v_singleton := Some (viper_Set key val vp)\<rparr>)"

definition GetIssuePrefix :: "state \<Rightarrow> string" where
  "GetIssuePrefix st = GetString ''issue-prefix'' st"

subsection \<open>\<^verbatim>\<open>Initialize\<close>\<close>

text \<open>\<^verbatim>\<open>os.Stat(p)\<close> succeeds.\<close>

definition exists_path :: "state \<Rightarrow> path \<Rightarrow> bool" where
  "exists_path st p = (files st p \<noteq> None)"

text \<open>
  The walk \<^verbatim>\<open>for dir := cwd; dir != filepath.Dir(dir); dir = filepath.Dir(dir)\<close>
  looking for \<^verbatim>\<open>.beads/config.yaml\<close>.
\<close>

function findConfigUp :: "state \<Rightarrow> path \<Rightarrow> path option" where
  "findConfigUp st dir =
     (if dir \<noteq> filepath_Dir dir then
        (if exists_path st (dir @ [''.beads'', ''config.yaml''])
         then Some (dir @ [''.beads'', ''config.yaml''])
         else findConfigUp st (filepath_Dir dir))
      else None)"
  by pat_completeness auto
termination
  by (relation "measure (\<lambda>(st, dir). length dir)") (auto simp: filepath_Dir_shorter)

declare findConfigUp.simps [simp del]

text \<open>The three places, in order; the first file found is the configuration file.\<close>

definition locateConfig :: "state \<Rightarrow> path option" where
  "locateConfig st =
     (let found1 = (case getwd st of None \<Rightarrow> None | Some cwd \<Rightarrow> findConfigUp st cwd);
          found2 = (case found1 of
                      Some p \<Rightarrow> Some p
                    | None \<Rightarrow>
                      (case userConfigDir st of
                         None \<Rightarrow> None
                       | Some configDir \<Rightarrow>
                           if exists_path st (configDir @ [''bd'', ''config.yaml''])
                           then Some (configDir @ [''bd'', ''config.yaml'']) else None))
      in case found2 of
           Some p \<Rightarrow> Some p
         | None \<Rightarrow>
           (case userHomeDir st of
              None \<Rightarrow> None
            | Some homeDir \<Rightarrow>
                if exists_path st (homeDir @ [''.beads'', ''config.yaml''])
                then Some (homeDir @ [''.beads'', ''config.yaml'']) else None))"

text \<open>The calls of lines 69 to 93 on the new instance, in the order of the source.\<close>

definition configureViper :: "viper \<Rightarrow> viper" where
  "configureViper vp =
     (SetDefault ''auto-start-daemon'' (VBool True)
     (SetDefault ''flush-debounce'' (VStr ''30s'')
     (BindEnv ''auto-start-daemon'' ''BEADS_AUTO_START_DAEMON''
     (BindEnv ''flush-debounce'' ''BEADS_FLUSH_DEBOUNCE''
     (SetDefault ''issue-prefix'' (VStr [])
     (SetDefault ''actor'' (VStr [])
     (SetDefault ''db'' (VStr [])
     (SetDefault ''no-db'' (VBool False)
     (SetDefault ''no-auto-import'' (VBool False)
     (SetDefault ''no-auto-flush'' (VBool False)
     (SetDefault ''no-daemon'' (VBool False)
     (SetDefault ''json'' (VBool False)
     (AutomaticEnv
     (SetEnvKeyReplacer [(CHR ''.'', CHR ''_''), (CHR ''-'', CHR ''_'')]
     (SetEnvPrefix ''BD'' vp)))))))))))))))"

text \<open>\<^verbatim>\<open>v.ReadInConfig()\<close>: read the configuration file and parse it.\<close>

definition ReadInConfig :: "ext \<Rightarrow> state \<Rightarrow> viper \<Rightarrow> error + viper" where
  "ReadInConfig X st vp =
     (case configFile vp of
        None \<Rightarrow> Inl ReadConfigFailed
      | Some p \<Rightarrow>
        (case files st p of
           Some (File content) \<Rightarrow>
             (case parseYAML X content of
                None \<Rightarrow> Inl ReadConfigFailed
              | Some m \<Rightarrow> Inr (vp\<lparr>config := m\<rparr>))
         | _ \<Rightarrow> Inl ReadConfigFailed))"

text \<open>
  \<^verbatim>\<open>Initialize\<close>. The package variable is assigned at the first line, so it holds the
  new instance also when reading the file fails. The configuration type is always
  YAML (\<^verbatim>\<open>SetConfigType("yaml")\<close>), which the parser parameter stands for, and the debug
  output to standard error is not part of the state.
\<close>

definition Initialize :: "ext \<Rightarrow> state \<Rightarrow> error option \<times> state" where
  "Initialize X st =
     (case locateConfig st of
        Some p \<Rightarrow>
          (let vp = configureViper (SetConfigFile p New) in
           case ReadInConfig X st vp of
             Inl e \<Rightarrow> (Some e, st\<lparr>v_singleton := Some vp\<rparr>)
           | Inr vp' \<Rightarrow> (None, st\<lparr>v_singleton := Some vp'\<rparr>))
      | None \<Rightarrow> (None, st\<lparr>v_singleton := Some (configureViper New)\<rparr>))"

subsection \<open>\<^verbatim>\<open>SetIssuePrefix\<close>\<close>

text \<open>The walk looking for a directory \<^verbatim>\<open>.beads\<close>; \<open>None\<close> is the empty
  \<^verbatim>\<open>beadsDir\<close>.\<close>

function findBeadsDir :: "state \<Rightarrow> path \<Rightarrow> path option" where
  "findBeadsDir st dir =
     (if dir \<noteq> filepath_Dir dir then
        (if files st (dir @ [''.beads'']) = Some Dir then Some (dir @ [''.beads''])
         else findBeadsDir st (filepath_Dir dir))
      else None)"
  by pat_completeness auto
termination
  by (relation "measure (\<lambda>(st, dir). length dir)") (auto simp: filepath_Dir_shorter)

declare findBeadsDir.simps [simp del]

text \<open>
  \<^verbatim>\<open>os.WriteFile\<close> and \<^verbatim>\<open>os.Rename\<close>: either refuses when the state says so or
  when the target is a directory, and then leaves the files as they are.
\<close>

definition WriteFile :: "path \<Rightarrow> string \<Rightarrow> state \<Rightarrow> state option" where
  "WriteFile p content st =
     (if writeFails st p \<or> files st p = Some Dir then None
      else Some (st\<lparr>files := (files st)(p \<mapsto> File content)\<rparr>))"

definition Rename :: "path \<Rightarrow> path \<Rightarrow> state \<Rightarrow> state option" where
  "Rename old new st =
     (if renameFails st new \<or> files st new = Some Dir \<or> files st old = None then None
      else Some (st\<lparr>files := ((files st)(new := files st old))(old := None)\<rparr>))"

definition Remove :: "path \<Rightarrow> state \<Rightarrow> state" where
  "Remove p st = st\<lparr>files := (files st)(p := None)\<rparr>"

text \<open>\<^verbatim>\<open>content := ""; if data, err := os.ReadFile(p); err == nil { content = string(data) }\<close>\<close>

definition readOrEmpty :: "state \<Rightarrow> path \<Rightarrow> string" where
  "readOrEmpty st p = (case files st p of Some (File data) \<Rightarrow> data | _ \<Rightarrow> [])"

definition SetIssuePrefix :: "ext \<Rightarrow> string \<Rightarrow> state \<Rightarrow> error option \<times> state" where
  "SetIssuePrefix X prefix st =
     (if prefix = [] then (Some EmptyPrefix, st)
      else
        (case getwd st of
           None \<Rightarrow> (Some GetwdFailed, st)
         | Some cwd \<Rightarrow>
           (case findBeadsDir st cwd of
              None \<Rightarrow> (None, Set ''issue-prefix'' (VStr prefix) st)
            | Some beadsDir \<Rightarrow>
                let configPath = beadsDir @ [''config.yaml''];
                    content = readOrEmpty st configPath;
                    content' = rewriteContent (printTable X) prefix content;
                    tmpPath = beadsDir @ [''config.yaml.tmp'']
                in
                (case WriteFile tmpPath content' st of
                   None \<Rightarrow> (Some WriteTempFailed, st)
                 | Some st1 \<Rightarrow>
                   (case Rename tmpPath configPath st1 of
                      None \<Rightarrow> (Some RenameFailed, Remove tmpPath st1)
                    | Some st2 \<Rightarrow> (None, Set ''issue-prefix'' (VStr prefix) st2))))))"

section \<open>\<^verbatim>\<open>MigrateConfigToYAML\<close>\<close>

text \<open>
  What \<^verbatim>\<open>db.QueryRowContext(...).Scan(&x)\<close> gives: a row's value, \<^verbatim>\<open>sql.ErrNoRows\<close>,
  or another error. The database is read through two queries only, so it is modelled
  by what each of them answers when it is run: the value of key \<^verbatim>\<open>issue_prefix\<close> in
  table \<^verbatim>\<open>config\<close>, and the identifier of the earliest issue.
\<close>

datatype scan = Row string | ErrNoRows | ScanError error

record db =
  selectConfigIssuePrefix :: scan
  selectFirstIssueID :: scan

text \<open>The variable that \<^verbatim>\<open>Scan\<close> fills: it keeps its zero value, the empty string,
  unless a row was read.\<close>

definition scanned :: "scan \<Rightarrow> string" where
  "scanned r = (case r of Row val \<Rightarrow> val | _ \<Rightarrow> [])"

text \<open>
  The last step: a prefix that was found is written through \<^verbatim>\<open>SetIssuePrefix\<close>, and
  the error of that call is dropped (the log lines are not part of the state).
\<close>

definition migratePrefix :: "ext \<Rightarrow> string \<Rightarrow> state \<Rightarrow> error option \<times> state" where
  "migratePrefix X dbPrefix st =
     (if dbPrefix \<noteq> [] then
        (case SetIssuePrefix X dbPrefix st of
           (Some err, st') \<Rightarrow> (None, st')
         | (None, st') \<Rightarrow> (None, st'))
      else (None, st))"

definition MigrateConfigToYAML :: "ext \<Rightarrow> db \<Rightarrow> state \<Rightarrow> error option \<times> state" where
  "MigrateConfigToYAML X d st =
     (let configPrefix = GetIssuePrefix st in
      if configPrefix \<noteq> [] then (None, st)
      else
        (case selectConfigIssuePrefix d of
           ScanError err \<Rightarrow> (Some err, st)
         | r1 \<Rightarrow>
           (let dbPrefix = scanned r1 in
            if dbPrefix = [] then
              (case selectFirstIssueID d of
                 ScanError err \<Rightarrow> (Some err, st)
               | r2 \<Rightarrow>
                 (let firstIssueID = scanned r2 in
                  if firstIssueID \<noteq> []
                  then migratePrefix X (ExtractIssuePrefix X firstIssueID) st
                  else migratePrefix X dbPrefix st))
            else migratePrefix X dbPrefix st)))"

section \<open>Example inputs\<close>

text \<open>
  External functions for the examples: no rune beyond Latin-1 counts as printable, no
  file parses, and the prefix of an identifier is the identifier.
\<close>

definition plainExt :: ext where
  "plainExt = \<lparr> printTable = (\<lambda>r. False), parseYAML = (\<lambda>s. None),
                ExtractIssuePrefix = (\<lambda>s. s) \<rparr>"

text \<open>
  A project at \<^verbatim>\<open>/proj\<close> with a directory \<^verbatim>\<open>.beads\<close> and a configuration file of the
  given content, the working directory being the project, the singleton initialised
  without a configuration file, no environment variable set, and no refusing path.
\<close>

definition projectState :: "string \<Rightarrow> state" where
  "projectState content =
     \<lparr> v_singleton = Some (configureViper New),
       getwd = Some [''proj''],
       userConfigDir = None,
       userHomeDir = None,
       files = [[''proj'', ''.beads''] \<mapsto> Dir,
                [''proj'', ''.beads'', ''config.yaml''] \<mapsto> File content],
       environ = Map.empty,
       writeFails = (\<lambda>p. False),
       renameFails = (\<lambda>p. False) \<rparr>"

text \<open>A byte that \<^verbatim>\<open>%q\<close> writes as it is: printable ASCII other than the double quote
  and the backslash.\<close>

definition plain :: "char \<Rightarrow> bool" where
  "plain c = (0x20 \<le> byte c \<and> byte c \<le> 0x7E \<and> c \<noteq> dq \<and> c \<noteq> bs)"

text \<open>Configuration files for the examples, and the path of the project's file.\<close>

definition plainConfig :: string where
  "plainConfig = ''# My config'' @ [nl] @ ''json: true'' @ [nl]"

definition commentedConfig :: string where
  "commentedConfig = ''# issue-prefix: '' @ [dq] @ ''commented'' @ [dq] @ [nl] @ ''json: true'' @ [nl]"

definition twoPrefixConfig :: string where
  "twoPrefixConfig = ''# top'' @ [nl] @ ''issue-prefix: '' @ [dq] @ ''old'' @ [dq] @ [nl]
     @ ''json: true'' @ [nl] @ ''  issue-prefix: later''"

definition cfgPath :: path where
  "cfgPath = [''proj'', ''.beads'', ''config.yaml'']"

text \<open>The example project with the prefix \<^verbatim>\<open>old\<close> set in memory and every write
  refused.\<close>

definition failingState :: state where
  "failingState =
     (Set ''issue-prefix'' (VStr ''old'') (projectState plainConfig))\<lparr>writeFails := (\<lambda>p. True)\<rparr>"

text \<open>A working directory without any \<^verbatim>\<open>.beads\<close> directory above it.\<close>

definition emptyState :: state where
  "emptyState =
     \<lparr> v_singleton = Some (configureViper New), getwd = Some [''tmp'', ''work''],
       userConfigDir = None, userHomeDir = None, files = Map.empty, environ = Map.empty,
       writeFails = (\<lambda>p. False), renameFails = (\<lambda>p. False) \<rparr>"

text \<open>A configuration file that declares the prefix \<^verbatim>\<open>existing\<close>, and one that declares an actor.\<close>

definition existingConfig :: string where
  "existingConfig = ''issue-prefix: '' @ [dq] @ ''existing'' @ [dq]"

definition actorConfig :: string where
  "actorConfig = ''actor: fromfile''"

text \<open>External functions for the examples with a parser that knows the example files and the empty file.\<close>

definition exampleExt :: ext where
  "exampleExt =
     \<lparr> printTable = (\<lambda>r. False),
       parseYAML = (\<lambda>s. if s = existingConfig then Some [''issue-prefix'' \<mapsto> VStr ''existing'']
                        else if s = actorConfig then Some [''actor'' \<mapsto> VStr ''fromfile'']
                        else if s = [] then Some Map.empty
                        else None),
       ExtractIssuePrefix = (\<lambda>s. s) \<rparr>"

text \<open>A database whose legacy setting is \<^verbatim>\<open>db-prefix\<close>.\<close>

definition legacyDb :: db where
  "legacyDb = \<lparr> selectConfigIssuePrefix = Row ''db-prefix'', selectFirstIssueID = ErrNoRows \<rparr>"

text \<open>The example project with every write refused and no prefix in memory.\<close>

definition readOnlyState :: state where
  "readOnlyState = (projectState plainConfig)\<lparr>writeFails := (\<lambda>p. True)\<rparr>"

text \<open>The table of defaults of the specification.\<close>

definition defaultTable :: "string \<rightharpoonup> cfgval" where
  "defaultTable =
     [''json'' \<mapsto> VBool False, ''no-daemon'' \<mapsto> VBool False, ''no-auto-flush'' \<mapsto> VBool False,
      ''no-auto-import'' \<mapsto> VBool False, ''no-db'' \<mapsto> VBool False, ''db'' \<mapsto> VStr [],
      ''actor'' \<mapsto> VStr [], ''issue-prefix'' \<mapsto> VStr [], ''flush-debounce'' \<mapsto> VStr ''30s'',
      ''auto-start-daemon'' \<mapsto> VBool True]"

text \<open>The named options: the keys of the default table.\<close>

definition optionNames :: "string list" where
  "optionNames = [''json'', ''no-daemon'', ''no-auto-flush'', ''no-auto-import'', ''no-db'', ''db'',
                  ''actor'', ''issue-prefix'', ''flush-debounce'', ''auto-start-daemon'']"

text \<open>The variable \<^verbatim>\<open>BD_<K>\<close> of a key: upper case, with \<^verbatim>\<open>.\<close> and \<^verbatim>\<open>-\<close> replaced by \<^verbatim>\<open>_\<close>.\<close>

definition envVarName :: "string \<Rightarrow> string" where
  "envVarName K = ''BD_'' @ Replace [(CHR ''.'', CHR ''_''), (CHR ''-'', CHR ''_'')] (ToUpper K)"

text \<open>The instance that \<^verbatim>\<open>Initialize\<close> builds, for a configuration file path and its parsed content.\<close>

definition initialized :: "path option \<Rightarrow> (string \<rightharpoonup> cfgval) \<Rightarrow> viper" where
  "initialized cf m = (configureViper (New\<lparr>configFile := cf\<rparr>))\<lparr>config := m\<rparr>"

text \<open>The example project after \<^verbatim>\<open>Initialize\<close> has read a file that declares the prefix.\<close>

definition existingState :: state where
  "existingState = snd (Initialize exampleExt (projectState existingConfig))"

text \<open>The example project whose file declares an actor, with \<^verbatim>\<open>BD_ACTOR\<close> set to the given value.\<close>

definition actorState :: "string \<Rightarrow> state" where
  "actorState val = (projectState actorConfig)\<lparr>environ := [''BD_ACTOR'' \<mapsto> val]\<rparr>"

text \<open>Databases whose first or second query fails, one without any row, and one whose legacy setting is \<^verbatim>\<open>bd\<close>.\<close>

definition lockedDb :: db where
  "lockedDb = \<lparr> selectConfigIssuePrefix = ScanError (QueryFailed ''database is locked''),
                 selectFirstIssueID = ErrNoRows \<rparr>"

definition lockedIssuesDb :: db where
  "lockedIssuesDb = \<lparr> selectConfigIssuePrefix = ErrNoRows,
                       selectFirstIssueID = ScanError (QueryFailed ''database is locked'') \<rparr>"

definition emptyDb :: db where
  "emptyDb = \<lparr> selectConfigIssuePrefix = ErrNoRows, selectFirstIssueID = ErrNoRows \<rparr>"

definition bdDb :: db where
  "bdDb = \<lparr> selectConfigIssuePrefix = Row ''bd'', selectFirstIssueID = ErrNoRows \<rparr>"

text \<open>A project whose file declares a debounce of seven seconds, with \<^verbatim>\<open>BD_FLUSH_DEBOUNCE\<close>
  set to the empty string and the legacy variable \<^verbatim>\<open>BEADS_FLUSH_DEBOUNCE\<close> set to two
  seconds; the parser knows that file only.\<close>

definition debounceConfig :: string where
  "debounceConfig = ''flush-debounce: 7s''"

definition debounceExt :: ext where
  "debounceExt =
     \<lparr> printTable = (\<lambda>r. False),
       parseYAML = (\<lambda>s. if s = debounceConfig then Some [''flush-debounce'' \<mapsto> VStr ''7s'']
                        else None),
       ExtractIssuePrefix = (\<lambda>s. s) \<rparr>"

definition debounceState :: state where
  "debounceState =
     (projectState debounceConfig)
       \<lparr>environ := [''BD_FLUSH_DEBOUNCE'' \<mapsto> [], ''BEADS_FLUSH_DEBOUNCE'' \<mapsto> ''2s'']\<rparr>"

section \<open>Lemmas about the library functions\<close>

subsection \<open>Splitting and joining lines\<close>

lemma Split_not_Nil: "Split s c \<noteq> []"
  by (induction s) (auto split: list.splits)

lemma Split_no_sep: "l \<in> set (Split s c) \<Longrightarrow> c \<notin> set l"
  by (induction s arbitrary: l) (auto split: list.splits if_splits)

lemma Split_plain: "c \<notin> set l \<Longrightarrow> Split l c = [l]"
  by (induction l) auto

lemma Split_append: "c \<notin> set l \<Longrightarrow> Split (l @ c # rest) c = l # Split rest c"
  by (induction l) auto

lemma Join_Split: "Join (Split s c) [c] = s"
proof (induction s)
  case Nil
  show ?case by simp
next
  case (Cons a s)
  obtain l ls where sp: "Split s c = l # ls"
    using Split_not_Nil [of s c] by (cases "Split s c") auto
  show ?case
  proof (cases "a = c")
    case True
    with Cons sp show ?thesis by simp
  next
    case False
    with Cons sp show ?thesis by (cases ls) auto
  qed
qed

lemma Split_Join:
  "ls \<noteq> [] \<Longrightarrow> \<forall>l \<in> set ls. c \<notin> set l \<Longrightarrow> Split (Join ls [c]) c = ls"
proof (induction ls "[c]" rule: Join.induct)
  case 1
  then show ?case by simp
next
  case (2 x)
  then show ?case by (simp add: Split_plain)
next
  case (3 x y ys)
  then show ?case by (simp add: Split_append)
qed

subsection \<open>The rewriting loop\<close>

lemma replaceFirst_none:
  "\<forall>l \<in> set ls. \<not> isPrefixLine l \<Longrightarrow> replaceFirst new ls = (ls, False)"
  by (induction ls) auto

lemma replaceFirst_first:
  "\<forall>x \<in> set pre. \<not> isPrefixLine x \<Longrightarrow> isPrefixLine l \<Longrightarrow>
   replaceFirst new (pre @ l # post) = (pre @ new # post, True)"
  by (induction pre) auto

lemma first_match_split:
  "\<exists>l \<in> set ls. isPrefixLine l \<Longrightarrow>
   \<exists>pre l post. ls = pre @ l # post \<and> (\<forall>x \<in> set pre. \<not> isPrefixLine x) \<and> isPrefixLine l"
  by (metis split_list_first_prop)

subsection \<open>A quoted string has no line break\<close>

lemma byte_chr: "n < 256 \<Longrightarrow> byte (chr n) = n"
  by (simp add: byte_def chr_def)

lemma chr_byte: "chr (byte c) = c"
  by (simp add: byte_def chr_def)

lemma byte_nl: "byte nl = 10"
  by (simp add: byte_def nl_def)

lemma chr_not_nl: "n < 256 \<Longrightarrow> n \<noteq> 10 \<Longrightarrow> chr n \<noteq> nl"
  using byte_chr byte_nl by metis

lemma hexdigit_not_nl: "hexdigit x \<noteq> nl"
proof -
  have "x mod 16 < length lowerhex" by (simp add: lowerhex_def)
  then have "hexdigit x \<in> set lowerhex"
    unfolding hexdigit_def by (rule nth_mem)
  moreover have "nl \<notin> set lowerhex" by (simp add: lowerhex_def nl_def)
  ultimately show ?thesis by metis
qed

lemma letters_not_nl:
  "bs \<noteq> nl" "dq \<noteq> nl" "CHR ''a'' \<noteq> nl" "CHR ''b'' \<noteq> nl" "CHR ''f'' \<noteq> nl" "CHR ''n'' \<noteq> nl"
  "CHR ''r'' \<noteq> nl" "CHR ''t'' \<noteq> nl" "CHR ''v'' \<noteq> nl" "CHR ''x'' \<noteq> nl" "CHR ''u'' \<noteq> nl"
  "CHR ''U'' \<noteq> nl"
  by (simp_all add: bs_def dq_def nl_def)

lemma AppendRune_no_nl:
  assumes "r \<noteq> 10" and "c \<in> set (AppendRune r)"
  shows "c \<noteq> nl"
proof -
  have a: "r \<le> 0x7F \<Longrightarrow> chr r \<noteq> nl" using assms(1) by (intro chr_not_nl) auto
  have b: "chr (0x80 + k mod 64) \<noteq> nl" for k by (intro chr_not_nl) auto
  have c2: "r \<le> 0x7FF \<Longrightarrow> chr (0xC0 + r div 64) \<noteq> nl" by (intro chr_not_nl) auto
  have c3: "r \<le> 0xFFFF \<Longrightarrow> chr (0xE0 + r div 4096) \<noteq> nl" by (intro chr_not_nl) auto
  have c4: "r \<le> 0x10FFFF \<Longrightarrow> chr (0xF0 + r div 262144) \<noteq> nl" by (intro chr_not_nl) auto
  have e: "chr 0xEF \<noteq> nl" "chr 0xBF \<noteq> nl" "chr 0xBD \<noteq> nl" by (intro chr_not_nl; simp)+
  show ?thesis
    using assms(2) a b c2 c3 c4 e a [symmetric] b [symmetric] c2 [symmetric] c3 [symmetric]
      c4 [symmetric] e [symmetric]
    unfolding AppendRune_def
    by (auto simp: not_le not_less split: if_splits)
qed

lemma appendEscapedRune_no_nl:
  assumes "c \<in> set (appendEscapedRune tbl r)"
  shows "c \<noteq> nl"
proof (cases "r = 10")
  case True
  then have "appendEscapedRune tbl r = [bs, CHR ''n'']"
    by (simp add: appendEscapedRune_def IsPrint_def byte_def dq_def bs_def)
  with assms show ?thesis using letters_not_nl by auto
next
  case False
  have "chr r \<noteq> nl" if "r = byte dq \<or> r = byte bs"
    using that letters_not_nl by (auto simp: chr_byte)
  then show ?thesis
    using assms AppendRune_no_nl [OF False] hexdigit_not_nl letters_not_nl
      hexdigit_not_nl [symmetric] letters_not_nl [symmetric]
    unfolding appendEscapedRune_def
    by (auto split: if_splits)
qed

lemma quoteBody_no_nl: "c \<in> set (quoteBody tbl s) \<Longrightarrow> c \<noteq> nl"
proof (induction tbl s rule: quoteBody.induct)
  case (1 tbl s)
  show ?case
  proof (cases "s = []")
    case True
    with "1.prems" show ?thesis by (simp add: quoteBody.simps)
  next
    case False
    obtain r width where rw:
      "(if byte (hd s) \<ge> 0x80 then DecodeRuneInString s else (byte (hd s), 1)) = (r, width)"
      by (cases "if byte (hd s) \<ge> 0x80 then DecodeRuneInString s else (byte (hd s), 1)") auto
    have ih: "c \<in> set (quoteBody tbl (drop width s)) \<Longrightarrow> c \<noteq> nl"
      using "1.IH" [OF False refl rw [symmetric]] .
    have eq: "quoteBody tbl s =
        (if width = 1 \<and> r = RuneError
         then [bs, CHR ''x'', hexdigit (byte (hd s) div 16), hexdigit (byte (hd s))]
         else appendEscapedRune tbl r) @ quoteBody tbl (drop width s)"
      using False rw by (subst quoteBody.simps) simp
    show ?thesis
      using "1.prems" ih appendEscapedRune_no_nl [of c tbl r] hexdigit_not_nl letters_not_nl
        hexdigit_not_nl [symmetric] letters_not_nl [symmetric]
      unfolding eq by (auto split: if_splits)
  qed
qed

lemma Quote_no_nl: "nl \<notin> set (Quote tbl s)"
  using quoteBody_no_nl [of nl tbl s] letters_not_nl by (auto simp: Quote_def)

lemma prefixLine_no_nl: "nl \<notin> set (prefixLine tbl p)"
  using Quote_no_nl [of tbl p] by (auto simp: prefixLine_def nl_def)

subsection \<open>The written line is a declaration line\<close>

lemma TrimLeftFunc_keeps:
  assumes "byte c < 0x80" and "\<not> IsSpace (byte c)"
  shows "TrimLeftFunc (c # cs) = c # cs"
  using assms by (subst TrimLeftFunc.simps) simp

lemma lastIndexFunc_last:
  assumes "s \<noteq> []" and "byte (last s) < 0x80" and "\<not> IsSpace (byte (last s))"
  shows "lastIndexFunc s = Some (length s - 1)"
proof -
  have l: "s ! (length s - Suc 0) = last s"
    using assms(1) by (simp add: last_conv_nth)
  have n: "nat (int (length s) - 1) = length s - Suc 0" by simp
  have "DecodeLastRuneInString s = (byte (last s), 1)"
    using assms(1,2) by (simp add: DecodeLastRuneInString_def Let_def l n)
  then show ?thesis
    using assms(1,3) by (subst lastIndexFunc.simps) simp
qed

lemma TrimRightFunc_keeps:
  assumes "s \<noteq> []" and "byte (last s) < 0x80" and "\<not> IsSpace (byte (last s))"
  shows "TrimRightFunc s = s"
proof -
  have l: "s ! (length s - Suc 0) = last s"
    using assms(1) by (simp add: last_conv_nth)
  show ?thesis
    using assms lastIndexFunc_last [OF assms] by (simp add: TrimRightFunc_def l)
qed

lemma TrimSpace_keeps:
  assumes "byte c < 0x80" and "\<not> IsSpace (byte c)"
    and "byte (last (c # cs)) < 0x80" and "\<not> IsSpace (byte (last (c # cs)))"
  shows "TrimSpace (c # cs) = c # cs"
  unfolding TrimSpace_def TrimLeftFunc_keeps [OF assms(1,2)]
  by (rule TrimRightFunc_keeps) (use assms in simp_all)

lemma isPrefixLine_prefixLine: "isPrefixLine (prefixLine tbl p)"
proof -
  obtain cs where cs: "prefixLine tbl p = CHR ''i'' # cs" and l: "last (CHR ''i'' # cs) = dq"
    by (simp add: prefixLine_def Quote_def)
  have b: "byte (last (CHR ''i'' # cs)) = 0x22"
    unfolding l by (simp add: byte_def dq_def)
  have i: "byte CHR ''i'' = 0x69"
    by (simp add: byte_def)
  have "TrimSpace (CHR ''i'' # cs) = CHR ''i'' # cs"
    by (rule TrimSpace_keeps) (simp_all only: b i, simp_all add: IsSpace_def)
  then have "TrimSpace (prefixLine tbl p) = prefixLine tbl p" using cs by simp
  then show ?thesis
    by (simp add: isPrefixLine_def HasPrefix_def prefixLine_def)
qed

subsection \<open>What the rewrite does, by cases on the lines of the content\<close>

lemma rewriteContent_empty: "rewriteContent tbl p [] = prefixLine tbl p"
  by (simp add: rewriteContent_def)

lemma rewriteContent_no_match:
  assumes "content \<noteq> []" and "\<forall>l \<in> set (Split content nl). \<not> isPrefixLine l"
  shows "rewriteContent tbl p content = prefixLine tbl p @ [nl] @ [nl] @ content"
proof -
  obtain l ls where sp: "Split content nl = l # ls"
    using Split_not_Nil [of content nl] by (cases "Split content nl") auto
  have "rewriteContent tbl p content = Join ([prefixLine tbl p, []] @ Split content nl) [nl]"
    using assms by (simp add: rewriteContent_def replaceFirst_none Split_not_Nil)
  also have "\<dots> = prefixLine tbl p @ [nl] @ [nl] @ Join (Split content nl) [nl]"
    by (simp add: sp)
  finally show ?thesis by (simp add: Join_Split)
qed

lemma rewriteContent_match:
  assumes "Split content nl = pre @ l # post"
    and "\<forall>x \<in> set pre. \<not> isPrefixLine x" and "isPrefixLine l"
  shows "rewriteContent tbl p content = Join (pre @ prefixLine tbl p # post) [nl]"
proof -
  have "content \<noteq> []"
  proof
    assume "content = []"
    with assms(1) have "pre = []" "l = []" by (auto simp: Cons_eq_append_conv)
    then have "isPrefixLine []" using assms(3) by simp
    moreover have "TrimSpace [] = []"
      by (simp add: TrimSpace_def TrimLeftFunc.simps TrimRightFunc_def lastIndexFunc.simps)
    ultimately show False by (simp add: isPrefixLine_def HasPrefix_def)
  qed
  then show ?thesis
    using assms by (simp add: rewriteContent_def replaceFirst_first)
qed

lemma rewriteContent_match_lines:
  assumes "Split content nl = pre @ l # post"
    and "\<forall>x \<in> set pre. \<not> isPrefixLine x" and "isPrefixLine l"
  shows "Split (rewriteContent tbl p content) nl = pre @ prefixLine tbl p # post"
proof -
  have "\<forall>x \<in> set (pre @ l # post). nl \<notin> set x"
    using Split_no_sep [of _ content nl] assms(1) by metis
  then have "\<forall>x \<in> set (pre @ prefixLine tbl p # post). nl \<notin> set x"
    using prefixLine_no_nl [of tbl p] by auto
  then show ?thesis
    unfolding rewriteContent_match [OF assms] by (intro Split_Join) simp_all
qed

lemma rewriteContent_idem:
  "rewriteContent tbl p (rewriteContent tbl p content) = rewriteContent tbl p content"
proof -
  let ?new = "prefixLine tbl p"
  have ne: "?new \<noteq> []" by (simp add: prefixLine_def)
  have again: "rewriteContent tbl p (Join (pre @ ?new # post) [nl]) = Join (pre @ ?new # post) [nl]"
    if "\<forall>x \<in> set pre. \<not> isPrefixLine x" "\<forall>x \<in> set (pre @ post). nl \<notin> set x" for pre post
  proof -
    have "Split (Join (pre @ ?new # post) [nl]) nl = pre @ ?new # post"
      using that(2) prefixLine_no_nl [of tbl p] by (intro Split_Join) auto
    then show ?thesis
      using that(1) isPrefixLine_prefixLine by (rule rewriteContent_match)
  qed
  show ?thesis
  proof (cases "content = []")
    case True
    have "rewriteContent tbl p (Join ([] @ ?new # []) [nl]) = Join ([] @ ?new # []) [nl]"
      by (rule again) simp_all
    with True show ?thesis by (simp add: rewriteContent_empty)
  next
    case False
    show ?thesis
    proof (cases "\<exists>l \<in> set (Split content nl). isPrefixLine l")
      case True
      then obtain pre l post where sp: "Split content nl = pre @ l # post"
        and pre: "\<forall>x \<in> set pre. \<not> isPrefixLine x" and l: "isPrefixLine l"
        using first_match_split by blast
      have "\<forall>x \<in> set (pre @ l # post). nl \<notin> set x"
        using Split_no_sep [of _ content nl] sp by metis
      then have "\<forall>x \<in> set (pre @ post). nl \<notin> set x" by auto
      with pre show ?thesis
        unfolding rewriteContent_match [OF sp pre l] by (rule again)
    next
      case no: False
      then have none: "\<forall>l \<in> set (Split content nl). \<not> isPrefixLine l" by blast
      have eq: "rewriteContent tbl p content = Join ([] @ ?new # ([] # Split content nl)) [nl]"
        using False none
        by (simp add: rewriteContent_def replaceFirst_none Split_not_Nil)
      have "\<forall>x \<in> set ([] @ [] # Split content nl). nl \<notin> set x"
        using Split_no_sep [of _ content nl] by auto
      then show ?thesis unfolding eq by (intro again) simp_all
    qed
  qed
qed

section \<open>Lemmas about \<^verbatim>\<open>SetIssuePrefix\<close> on states\<close>

lemma findBeadsDir_cong:
  assumes "\<And>d. files st' (d @ [''.beads'']) = files st (d @ [''.beads''])"
  shows "findBeadsDir st' dir = findBeadsDir st dir"
proof (induction dir rule: length_induct)
  case (1 dir)
  show ?case
  proof (cases "dir \<noteq> filepath_Dir dir")
    case True
    then have "findBeadsDir st' (filepath_Dir dir) = findBeadsDir st (filepath_Dir dir)"
      using 1 filepath_Dir_shorter by blast
    then show ?thesis
      using True assms
      by (subst findBeadsDir.simps, subst (2) findBeadsDir.simps) simp
  next
    case False
    then show ?thesis
      by (subst findBeadsDir.simps, subst (2) findBeadsDir.simps) simp
  qed
qed

lemma Set_Set: "Set k val (Set k val st) = Set k val st"
  by (cases "v_singleton st") (simp_all add: Set_def viper_Set_def)

lemma Set_fields [simp]:
  "getwd (Set k val st) = getwd st"
  "files (Set k val st) = files st"
  "environ (Set k val st) = environ st"
  "writeFails (Set k val st) = writeFails st"
  "renameFails (Set k val st) = renameFails st"
  by (cases "v_singleton st"; simp add: Set_def)+

lemma Set_files_update:
  "Set k val (st\<lparr>files := f\<rparr>) = (Set k val st)\<lparr>files := f\<rparr>"
  by (cases "v_singleton st") (simp_all add: Set_def)

lemma SetIssuePrefix_ok_cases:
  assumes "SetIssuePrefix X p st = (None, st')"
  obtains (in_memory) cwd where "p \<noteq> []" "getwd st = Some cwd" "findBeadsDir st cwd = None"
      "st' = Set ''issue-prefix'' (VStr p) st"
  | (on_disk) cwd beadsDir where "p \<noteq> []" "getwd st = Some cwd"
      "findBeadsDir st cwd = Some beadsDir"
      "\<not> writeFails st (beadsDir @ [''config.yaml.tmp''])"
      "files st (beadsDir @ [''config.yaml.tmp'']) \<noteq> Some Dir"
      "\<not> renameFails st (beadsDir @ [''config.yaml''])"
      "files st (beadsDir @ [''config.yaml'']) \<noteq> Some Dir"
      "st' = Set ''issue-prefix'' (VStr p)
         (st\<lparr>files := (files st)
            (beadsDir @ [''config.yaml''] :=
               Some (File (rewriteContent (printTable X) p
                             (readOrEmpty st (beadsDir @ [''config.yaml''])))),
             beadsDir @ [''config.yaml.tmp''] := None)\<rparr>)"
proof -
  from assms have p: "p \<noteq> []" by (auto simp: SetIssuePrefix_def split: if_splits)
  from assms p obtain cwd where cwd: "getwd st = Some cwd"
    by (cases "getwd st") (auto simp: SetIssuePrefix_def)
  show thesis
  proof (cases "findBeadsDir st cwd")
    case None
    with assms p cwd have "st' = Set ''issue-prefix'' (VStr p) st"
      by (simp add: SetIssuePrefix_def)
    with p cwd None show thesis by (rule in_memory)
  next
    case (Some beadsDir)
    let ?cfg = "beadsDir @ [''config.yaml'']"
    let ?tmp = "beadsDir @ [''config.yaml.tmp'']"
    let ?c = "rewriteContent (printTable X) p (readOrEmpty st ?cfg)"
    have neq: "?tmp \<noteq> ?cfg" by simp
    from assms p cwd Some have w: "\<not> writeFails st ?tmp" "files st ?tmp \<noteq> Some Dir"
      by (auto simp: SetIssuePrefix_def Let_def WriteFile_def split: if_splits)
    then have wf: "WriteFile ?tmp ?c st = Some (st\<lparr>files := (files st)(?tmp \<mapsto> File ?c)\<rparr>)"
      by (simp add: WriteFile_def)
    from assms p cwd Some wf have r: "\<not> renameFails st ?cfg" "files st ?cfg \<noteq> Some Dir"
      by (auto simp: SetIssuePrefix_def Let_def Rename_def split: if_splits)
    have fe: "((files st)(?tmp \<mapsto> File ?c))(?cfg := Some (File ?c), ?tmp := None)
        = (files st)(?cfg := Some (File ?c), ?tmp := None)"
      by (rule ext) simp
    from assms p cwd Some wf r have
      "st' = Set ''issue-prefix'' (VStr p) (st\<lparr>files := (files st)(?cfg := Some (File ?c), ?tmp := None)\<rparr>)"
      by (simp add: SetIssuePrefix_def Let_def Rename_def fe)
    with p cwd Some w r show thesis by (rule on_disk)
  qed
qed

lemma findBeadsDir_after_write:
  "findBeadsDir (st\<lparr>files := (files st)(b @ [''config.yaml''] := x, b @ [''config.yaml.tmp''] := y)\<rparr>) dir
   = findBeadsDir st dir"
  by (rule findBeadsDir_cong) simp

lemma SetIssuePrefix_twice:
  assumes "SetIssuePrefix X p st = (None, st1)"
  shows "SetIssuePrefix X p st1 = (None, st1)"
  using assms
proof (cases rule: SetIssuePrefix_ok_cases)
  case (in_memory cwd)
  have "findBeadsDir st1 cwd = findBeadsDir st cwd"
    unfolding in_memory(4) by (rule findBeadsDir_cong) simp
  then have "findBeadsDir st1 cwd = None"
    using in_memory(3) by simp
  then show ?thesis
    using in_memory by (simp add: SetIssuePrefix_def Set_Set)
next
  case (on_disk cwd beadsDir)
  let ?cfg = "beadsDir @ [''config.yaml'']"
  let ?tmp = "beadsDir @ [''config.yaml.tmp'']"
  let ?c = "rewriteContent (printTable X) p (readOrEmpty st ?cfg)"
  let ?F = "(files st)(?cfg := Some (File ?c), ?tmp := None)"
  have st1: "st1 = Set ''issue-prefix'' (VStr p) (st\<lparr>files := ?F\<rparr>)" by (rule on_disk(8))
  have f1: "files st1 = ?F" unfolding st1 by simp
  have g1: "getwd st1 = Some cwd" unfolding st1 using on_disk(2) by simp
  have b1: "findBeadsDir st1 cwd = Some beadsDir"
  proof -
    have "findBeadsDir st1 cwd = findBeadsDir st cwd"
      by (rule findBeadsDir_cong) (simp add: f1)
    then show ?thesis using on_disk(3) by simp
  qed
  have rd: "readOrEmpty st1 ?cfg = ?c" by (simp add: readOrEmpty_def f1)
  have c': "rewriteContent (printTable X) p ?c = ?c" by (rule rewriteContent_idem)
  have wf: "WriteFile ?tmp ?c st1 = Some (st1\<lparr>files := ?F(?tmp \<mapsto> File ?c)\<rparr>)"
    using on_disk(4) by (simp add: WriteFile_def f1 st1)
  have fe: "(?F(?tmp \<mapsto> File ?c))(?cfg := Some (File ?c), ?tmp := None) = ?F"
    by (rule ext) simp
  have rn: "Rename ?tmp ?cfg (st1\<lparr>files := ?F(?tmp \<mapsto> File ?c)\<rparr>) = Some st1"
    using on_disk(6) by (simp add: Rename_def st1 Set_files_update [symmetric] fe)
  have "Set ''issue-prefix'' (VStr p) st1 = st1" unfolding st1 by (rule Set_Set)
  then show ?thesis
    using on_disk(1) g1 b1 rd c' wf rn by (simp add: SetIssuePrefix_def Let_def)
qed

lemma SetIssuePrefix_error_memory:
  assumes "SetIssuePrefix X p st = (Some e, st')"
  shows "v_singleton st' = v_singleton st \<and> environ st' = environ st"
proof (cases "p = []")
  case True
  with assms show ?thesis by (simp add: SetIssuePrefix_def)
next
  case p: False
  show ?thesis
  proof (cases "getwd st")
    case None
    with assms p show ?thesis by (simp add: SetIssuePrefix_def)
  next
    case (Some cwd)
    show ?thesis
    proof (cases "findBeadsDir st cwd")
      case None
      with assms p Some show ?thesis by (simp add: SetIssuePrefix_def)
    next
      case bd: (Some beadsDir)
      let ?cfg = "beadsDir @ [''config.yaml'']"
      let ?tmp = "beadsDir @ [''config.yaml.tmp'']"
      let ?c = "rewriteContent (printTable X) p (readOrEmpty st ?cfg)"
      show ?thesis
      proof (cases "WriteFile ?tmp ?c st")
        case None
        with assms p Some bd show ?thesis by (simp add: SetIssuePrefix_def Let_def)
      next
        case w: (Some st1)
        then have st1: "v_singleton st1 = v_singleton st" "environ st1 = environ st"
          by (auto simp: WriteFile_def split: if_splits)
        show ?thesis
        proof (cases "Rename ?tmp ?cfg st1")
          case None
          with assms p Some bd w have "st' = Remove ?tmp st1"
            by (simp add: SetIssuePrefix_def Let_def)
          with st1 show ?thesis by (simp add: Remove_def)
        next
          case (Some st2)
          with assms p \<open>getwd st = Some cwd\<close> bd w show ?thesis
            by (simp add: SetIssuePrefix_def Let_def)
        qed
      qed
    qed
  qed
qed

subsection \<open>Prefixes of plain ASCII\<close>

lemma quoteBody_plain: "\<forall>c \<in> set s. plain c \<Longrightarrow> quoteBody tbl s = s"
proof (induction s)
  case Nil
  show ?case by (simp add: quoteBody.simps)
next
  case (Cons c s)
  then have c: "0x20 \<le> byte c" "byte c \<le> 0x7E" "c \<noteq> dq" "c \<noteq> bs"
    by (simp_all add: plain_def)
  have ne: "byte c \<noteq> byte dq" "byte c \<noteq> byte bs"
    using c(3,4) chr_byte by metis+
  have "appendEscapedRune tbl (byte c) = [c]"
    using c ne by (simp add: appendEscapedRune_def IsPrint_def AppendRune_def chr_byte)
  moreover have "byte c \<noteq> RuneError" using c by (simp add: RuneError_def)
  moreover have "quoteBody tbl s = s" using Cons by simp
  ultimately show ?case
    using c by (subst quoteBody.simps) simp
qed

lemma prefixLine_plain:
  "\<forall>c \<in> set p. plain c \<Longrightarrow> prefixLine tbl p = ''issue-prefix: '' @ [dq] @ p @ [dq]"
  by (simp add: prefixLine_def Quote_def quoteBody_plain)

lemma plain_bd: "\<forall>c \<in> set ''bd''. plain c"
  by (simp add: plain_def byte_def dq_def bs_def)

subsection \<open>The example project\<close>

lemma findBeadsDir_projectState:
  "findBeadsDir (projectState content) [''proj''] = Some [''proj'', ''.beads'']"
  by (subst findBeadsDir.simps) (simp add: filepath_Dir_def projectState_def)

lemma readOrEmpty_projectState:
  "readOrEmpty (projectState content) [''proj'', ''.beads'', ''config.yaml''] = content"
  by (simp add: readOrEmpty_def projectState_def)

lemma SetIssuePrefix_projectState:
  assumes "p \<noteq> []"
  shows "SetIssuePrefix X p (projectState content) =
    (None, Set ''issue-prefix'' (VStr p) (projectState (rewriteContent (printTable X) p content)))"
proof -
  let ?c = "rewriteContent (printTable X) p content"
  have g: "getwd (projectState content) = Some [''proj'']" by (simp add: projectState_def)
  have w: "WriteFile [''proj'', ''.beads'', ''config.yaml.tmp''] ?c (projectState content)
      = Some ((projectState content)\<lparr>files := (files (projectState content))
           ([''proj'', ''.beads'', ''config.yaml.tmp''] \<mapsto> File ?c)\<rparr>)"
    by (simp add: WriteFile_def projectState_def)
  have fe: "((files (projectState content))([''proj'', ''.beads'', ''config.yaml.tmp''] \<mapsto> File ?c))
         ([''proj'', ''.beads'', ''config.yaml''] := Some (File ?c),
          [''proj'', ''.beads'', ''config.yaml.tmp''] := None) = files (projectState ?c)"
    by (rule ext) (simp add: projectState_def)
  have r: "Rename [''proj'', ''.beads'', ''config.yaml.tmp''] [''proj'', ''.beads'', ''config.yaml'']
       ((projectState content)\<lparr>files := (files (projectState content))
           ([''proj'', ''.beads'', ''config.yaml.tmp''] \<mapsto> File ?c)\<rparr>) = Some (projectState ?c)"
    unfolding Rename_def using fe by (simp add: projectState_def)
  show ?thesis
    using assms g w r
    by (simp add: SetIssuePrefix_def findBeadsDir_projectState readOrEmpty_projectState Let_def)
qed

lemma plainConfig_lines: "Split plainConfig nl = [''# My config'', ''json: true'', []]"
  by (simp add: plainConfig_def nl_def)

lemma plainConfig_no_match: "\<forall>l \<in> set (Split plainConfig nl). \<not> isPrefixLine l"
  unfolding plainConfig_lines by code_simp

lemma plainConfig_not_empty: "plainConfig \<noteq> []"
  by (simp add: plainConfig_def)

lemma SetIssuePrefix_file_content:
  assumes "SetIssuePrefix X p st = (None, st')" and "getwd st = Some cwd"
    and "findBeadsDir st cwd = Some beadsDir"
  shows "files st' (beadsDir @ [''config.yaml'']) =
           Some (File (rewriteContent (printTable X) p (readOrEmpty st (beadsDir @ [''config.yaml'']))))
       \<and> (\<forall>q. q \<noteq> beadsDir @ [''config.yaml''] \<and> q \<noteq> beadsDir @ [''config.yaml.tmp'']
              \<longrightarrow> files st' q = files st q)"
  using assms(1)
proof (cases rule: SetIssuePrefix_ok_cases)
  case (in_memory cwd')
  with assms(2,3) show ?thesis by simp
next
  case (on_disk cwd' beadsDir')
  with assms(2,3) have same: "cwd' = cwd" "beadsDir' = beadsDir" by simp_all
  show ?thesis
    unfolding on_disk(8) same by simp
qed

lemma readOrEmpty_Set [simp]: "readOrEmpty (Set k val st) q = readOrEmpty st q"
  by (simp add: readOrEmpty_def)

lemma readOrEmpty_File: "files st q = Some (File c) \<Longrightarrow> readOrEmpty st q = c"
  by (simp add: readOrEmpty_def)

lemma twoPrefixConfig_lines:
  "Split twoPrefixConfig nl =
     [''# top''] @ (''issue-prefix: '' @ [dq] @ ''old'' @ [dq]) # [''json: true'', ''  issue-prefix: later'']"
  by (simp add: twoPrefixConfig_def nl_def dq_def)

lemma twoPrefixConfig_first: "\<forall>x \<in> set [''# top'']. \<not> isPrefixLine x"
  by code_simp

lemma twoPrefixConfig_match: "isPrefixLine (''issue-prefix: '' @ [dq] @ ''old'' @ [dq])"
  by code_simp

lemma twoPrefixConfig_later: "isPrefixLine ''  issue-prefix: later''"
  by code_simp

lemma projectState_ok:
  "p \<noteq> [] \<Longrightarrow> SetIssuePrefix X p (projectState c)
     = (None, snd (SetIssuePrefix X p (projectState c)))"
  by (simp add: SetIssuePrefix_projectState)

lemma projectState_getwd: "getwd (projectState c) = Some [''proj'']"
  by (simp add: projectState_def)

lemma set_take_no_match:
  assumes "\<forall>k<i. \<not> isPrefixLine (ls ! k)" and "i \<le> length ls"
  shows "\<forall>x \<in> set (take i ls). \<not> isPrefixLine x"
  using assms by (auto simp: in_set_conv_nth)

lemma GetIssuePrefix_Set:
  "v_singleton st \<noteq> None \<Longrightarrow> GetIssuePrefix (Set ''issue-prefix'' (VStr p) st) = p"
  by (auto simp: GetIssuePrefix_def GetString_def Set_def viper_Set_def viper_Get_def
      find_key_def)

lemma failingState_fails:
  "SetIssuePrefix plainExt ''new'' failingState = (Some WriteTempFailed, failingState)"
proof -
  have f: "files failingState = files (projectState plainConfig)"
    by (simp add: failingState_def)
  have "findBeadsDir failingState [''proj''] = findBeadsDir (projectState plainConfig) [''proj'']"
    by (rule findBeadsDir_cong) (simp add: f)
  then have b: "findBeadsDir failingState [''proj''] = Some [''proj'', ''.beads'']"
    by (simp add: findBeadsDir_projectState)
  have g: "getwd failingState = Some [''proj'']"
    by (simp add: failingState_def projectState_def)
  have w: "writeFails failingState q" for q
    by (simp add: failingState_def)
  show ?thesis
    using g b w by (simp add: SetIssuePrefix_def Let_def WriteFile_def)
qed

lemma failingState_prefix: "GetIssuePrefix failingState = ''old''"
proof -
  have "GetIssuePrefix (Set ''issue-prefix'' (VStr ''old'') (projectState plainConfig)) = ''old''"
    by (rule GetIssuePrefix_Set) (simp add: projectState_def)
  then show ?thesis
    by (simp add: failingState_def GetIssuePrefix_def GetString_def Set_def projectState_def)
qed

lemma emptyState_no_beads: "findBeadsDir emptyState [''tmp'', ''work''] = None"
  by (simp add: findBeadsDir.simps filepath_Dir_def emptyState_def)

lemma commentedConfig_lines:
  "Split commentedConfig nl = [''# issue-prefix: '' @ [dq] @ ''commented'' @ [dq], ''json: true'', []]"
  by (simp add: commentedConfig_def nl_def dq_def)

lemma commentedConfig_no_match: "\<forall>l \<in> set (Split commentedConfig nl). \<not> isPrefixLine l"
  unfolding commentedConfig_lines by code_simp

lemma commentedConfig_not_empty: "commentedConfig \<noteq> []"
  by (simp add: commentedConfig_def)

lemma plain_active: "\<forall>c \<in> set ''active''. plain c"
  by (simp add: plain_def byte_def dq_def bs_def)

section \<open>Lemmas about \<^verbatim>\<open>Initialize\<close> and \<^verbatim>\<open>MigrateConfigToYAML\<close>\<close>

lemma migratePrefix_no_error: "fst (migratePrefix X p st) = None"
  by (simp add: migratePrefix_def split: prod.splits option.splits)

lemma migratePrefix_state:
  "p \<noteq> [] \<Longrightarrow> migratePrefix X p st = (None, snd (SetIssuePrefix X p st))"
  by (auto simp: migratePrefix_def split: prod.splits option.splits)

lemma ToLower_lower: "\<forall>c \<in> set s. \<not> (0x41 \<le> byte c \<and> byte c \<le> 0x5A) \<Longrightarrow> ToLower s = s"
  by (induction s) (auto simp: ToLower_def)

lemma locateConfig_projectState:
  "locateConfig (projectState c) = Some [''proj'', ''.beads'', ''config.yaml'']"
proof -
  have "findConfigUp (projectState c) [''proj''] = Some [''proj'', ''.beads'', ''config.yaml'']"
    by (subst findConfigUp.simps) (simp add: filepath_Dir_def exists_path_def projectState_def)
  then show ?thesis by (simp add: locateConfig_def projectState_def)
qed

lemma ToLower_keys:
  "ToLower ''json'' = ''json''" "ToLower ''no-daemon'' = ''no-daemon''"
  "ToLower ''no-auto-flush'' = ''no-auto-flush''" "ToLower ''no-auto-import'' = ''no-auto-import''"
  "ToLower ''no-db'' = ''no-db''" "ToLower ''db'' = ''db''" "ToLower ''actor'' = ''actor''"
  "ToLower ''issue-prefix'' = ''issue-prefix''" "ToLower ''flush-debounce'' = ''flush-debounce''"
  "ToLower ''auto-start-daemon'' = ''auto-start-daemon''"
  by (simp_all add: ToLower_def byte_def)

lemma configureViper_New:
  "configureViper (New\<lparr>configFile := cf\<rparr>) =
     \<lparr> configFile = cf, envPrefix = ''BD'',
       envKeyReplacer = [(CHR ''.'', CHR ''_''), (CHR ''-'', CHR ''_'')],
       automaticEnvApplied = True,
       defaults = defaultTable,
       envBindings = [''flush-debounce'' \<mapsto> [''BEADS_FLUSH_DEBOUNCE''],
                      ''auto-start-daemon'' \<mapsto> [''BEADS_AUTO_START_DAEMON'']],
       config = Map.empty, override = Map.empty \<rparr>"
  by (simp add: configureViper_def SetDefault_def BindEnv_def AutomaticEnv_def
      SetEnvKeyReplacer_def SetEnvPrefix_def New_def ToLower_keys defaultTable_def)

lemma optionNames_lower: "K \<in> set optionNames \<Longrightarrow> ToLower K = K"
  by (auto simp: optionNames_def ToLower_keys)

lemma New_no_file: "New\<lparr>configFile := None\<rparr> = New"
  by (simp add: New_def)

lemma initialized_no_file: "initialized None Map.empty = configureViper New"
  using configureViper_New [of None] by (simp add: initialized_def New_no_file)

lemma initialized_file: "initialized cf Map.empty = configureViper (New\<lparr>configFile := cf\<rparr>)"
  by (simp add: initialized_def configureViper_New)

lemma Initialize_cases:
  "\<exists>cf m. snd (Initialize X st) = st\<lparr>v_singleton := Some (initialized cf m)\<rparr>
          \<and> (locateConfig st = None \<longrightarrow> fst (Initialize X st) = None)"
proof (cases "locateConfig st")
  case None
  then have "snd (Initialize X st) = st\<lparr>v_singleton := Some (initialized None Map.empty)\<rparr>"
    by (simp add: Initialize_def initialized_no_file)
  moreover have "fst (Initialize X st) = None" using None by (simp add: Initialize_def)
  ultimately show ?thesis by blast
next
  case (Some p)
  let ?vp = "configureViper (New\<lparr>configFile := Some p\<rparr>)"
  have c: "config ?vp = Map.empty" by (simp add: configureViper_New)
  show ?thesis
  proof (cases "ReadInConfig X st ?vp")
    case (Inl e)
    then have "snd (Initialize X st) = st\<lparr>v_singleton := Some (initialized (Some p) Map.empty)\<rparr>"
      using Some by (simp add: Initialize_def initialized_file SetConfigFile_def)
    with Some show ?thesis by auto
  next
    case (Inr vp')
    then obtain m where "vp' = ?vp\<lparr>config := m\<rparr>"
      by (auto simp: ReadInConfig_def split: option.splits node.splits)
    with Inr have "snd (Initialize X st) = st\<lparr>v_singleton := Some (initialized (Some p) m)\<rparr>"
      using Some by (simp add: Initialize_def initialized_def SetConfigFile_def)
    with Some show ?thesis by auto
  qed
qed

lemma Initialize_no_file:
  "locateConfig st = None \<Longrightarrow>
   Initialize X st = (None, st\<lparr>v_singleton := Some (initialized None Map.empty)\<rparr>)"
  by (simp add: Initialize_def initialized_no_file)

lemma Initialize_file:
  assumes "locateConfig st = Some p" and "files st p = Some (File c)" and "parseYAML X c = Some m"
  shows "Initialize X st = (None, st\<lparr>v_singleton := Some (initialized (Some p) m)\<rparr>)"
  using assms
  by (simp add: Initialize_def initialized_def SetConfigFile_def ReadInConfig_def configureViper_New)

lemma envName_merge:
  "Replace (envKeyReplacer (initialized cf m)) (mergeWithEnvPrefix (initialized cf m) K)
     = envVarName K"
  by (simp add: mergeWithEnvPrefix_def initialized_def configureViper_New envVarName_def
      Replace_def ToUpper_def byte_def)

lemma getEnv_initialized:
  "getEnv (initialized cf m) env (mergeWithEnvPrefix (initialized cf m) K)
     = (case env (envVarName K) of None \<Rightarrow> None | Some val \<Rightarrow> if val \<noteq> [] then Some val else None)"
  unfolding getEnv_def envName_merge by (rule refl)

lemma viper_Get_env:
  assumes "ToLower K = K" and "env (envVarName K) = Some val" and "val \<noteq> []"
  shows "viper_Get (initialized cf m) env K = Some (VStr val)"
proof -
  have "override (initialized cf m) K = None" "automaticEnvApplied (initialized cf m)"
    by (simp_all add: initialized_def configureViper_New)
  then show ?thesis
    using assms by (simp add: viper_Get_def find_key_def getEnv_initialized)
qed

lemma bound_names_plain:
  "Replace [(CHR ''.'', CHR ''_''), (CHR ''-'', CHR ''_'')] ''BEADS_FLUSH_DEBOUNCE'' = ''BEADS_FLUSH_DEBOUNCE''"
  "Replace [(CHR ''.'', CHR ''_''), (CHR ''-'', CHR ''_'')] ''BEADS_AUTO_START_DAEMON'' = ''BEADS_AUTO_START_DAEMON''"
  by (simp_all add: Replace_def)

lemma firstEnv_initialized:
  assumes "env ''BEADS_FLUSH_DEBOUNCE'' = None" and "env ''BEADS_AUTO_START_DAEMON'' = None"
  shows "firstEnv (initialized cf m) env
           (case envBindings (initialized cf m) K of None \<Rightarrow> [] | Some ns \<Rightarrow> ns) = None"
proof -
  have r: "envKeyReplacer (initialized cf m) = [(CHR ''.'', CHR ''_''), (CHR ''-'', CHR ''_'')]"
    by (simp add: initialized_def configureViper_New)
  have g: "getEnv (initialized cf m) env ''BEADS_FLUSH_DEBOUNCE'' = None"
    "getEnv (initialized cf m) env ''BEADS_AUTO_START_DAEMON'' = None"
    using assms by (simp_all add: getEnv_def r bound_names_plain)
  have "envBindings (initialized cf m) = [''flush-debounce'' \<mapsto> [''BEADS_FLUSH_DEBOUNCE''],
                      ''auto-start-daemon'' \<mapsto> [''BEADS_AUTO_START_DAEMON'']]"
    by (simp add: initialized_def configureViper_New)
  then show ?thesis using g by simp
qed

lemma viper_Get_no_env:
  assumes "ToLower K = K" and "env (envVarName K) = None \<or> env (envVarName K) = Some []"
    and "env ''BEADS_FLUSH_DEBOUNCE'' = None" and "env ''BEADS_AUTO_START_DAEMON'' = None"
  shows "viper_Get (initialized cf m) env K = (case m K of Some val \<Rightarrow> Some val | None \<Rightarrow> defaultTable K)"
proof -
  have "override (initialized cf m) K = None" "config (initialized cf m) = m"
    "defaults (initialized cf m) = defaultTable"
    by (simp_all add: initialized_def configureViper_New)
  moreover have "getEnv (initialized cf m) env (mergeWithEnvPrefix (initialized cf m) K) = None"
    using assms(2) by (auto simp: getEnv_initialized)
  ultimately show ?thesis
    using assms(1) firstEnv_initialized [OF assms(3,4), of cf m K]
    by (auto simp: viper_Get_def find_key_def split: option.splits)
qed

lemma exampleExt_parse:
  "parseYAML exampleExt existingConfig = Some [''issue-prefix'' \<mapsto> VStr ''existing'']"
  "parseYAML exampleExt actorConfig = Some [''actor'' \<mapsto> VStr ''fromfile'']"
  by (simp_all add: exampleExt_def existingConfig_def actorConfig_def dq_def)

lemma projectState_file:
  "files (projectState c) [''proj'', ''.beads'', ''config.yaml''] = Some (File c)"
  by (simp add: projectState_def)

lemma existingState_eq:
  "Initialize exampleExt (projectState existingConfig)
     = (None, (projectState existingConfig)\<lparr>v_singleton :=
                 Some (initialized (Some cfgPath) [''issue-prefix'' \<mapsto> VStr ''existing''])\<rparr>)"
  unfolding cfgPath_def
  by (rule Initialize_file [OF locateConfig_projectState projectState_file exampleExt_parse(1)])

lemma existingState_fields:
  "v_singleton existingState
     = Some (initialized (Some cfgPath) [''issue-prefix'' \<mapsto> VStr ''existing''])"
  "environ existingState = Map.empty"
  "files existingState = files (projectState existingConfig)"
  by (simp_all add: existingState_def existingState_eq, simp add: projectState_def)

lemma existingState_prefix: "GetIssuePrefix existingState = ''existing''"
proof -
  have "viper_Get (initialized (Some cfgPath) [''issue-prefix'' \<mapsto> VStr ''existing'']) Map.empty
          ''issue-prefix'' = Some (VStr ''existing'')"
    by (subst viper_Get_no_env) (simp_all add: ToLower_keys)
  then show ?thesis
    by (simp add: existingState_fields GetIssuePrefix_def GetString_def)
qed

lemma existingState_file: "readOrEmpty existingState cfgPath = existingConfig"
  by (simp add: readOrEmpty_def existingState_fields projectState_file cfgPath_def)

lemma GetIssuePrefix_fresh:
  assumes "v_singleton st = Some (configureViper New)" and "environ st = Map.empty"
  shows "GetIssuePrefix st = []"
proof -
  have "viper_Get (initialized None Map.empty) Map.empty ''issue-prefix'' = Some (VStr [])"
    by (subst viper_Get_no_env) (simp_all add: ToLower_keys defaultTable_def)
  then show ?thesis
    using assms by (simp add: GetIssuePrefix_def GetString_def initialized_no_file)
qed

lemma emptyState_prefix: "GetIssuePrefix emptyState = []"
  by (rule GetIssuePrefix_fresh) (simp_all add: emptyState_def)

lemma readOnlyState_prefix: "GetIssuePrefix readOnlyState = []"
  by (rule GetIssuePrefix_fresh) (simp_all add: readOnlyState_def projectState_def)

lemma readOnlyState_fails:
  "SetIssuePrefix X ''bd'' readOnlyState = (Some WriteTempFailed, readOnlyState)"
proof -
  have f: "files readOnlyState = files (projectState plainConfig)"
    by (simp add: readOnlyState_def)
  have "findBeadsDir readOnlyState [''proj''] = findBeadsDir (projectState plainConfig) [''proj'']"
    by (rule findBeadsDir_cong) (simp add: f)
  then have b: "findBeadsDir readOnlyState [''proj''] = Some [''proj'', ''.beads'']"
    by (simp add: findBeadsDir_projectState)
  have g: "getwd readOnlyState = Some [''proj'']"
    by (simp add: readOnlyState_def projectState_def)
  have w: "writeFails readOnlyState q" for q
    by (simp add: readOnlyState_def)
  show ?thesis
    using g b w by (simp add: SetIssuePrefix_def Let_def WriteFile_def)
qed

lemma envVarName_table:
  "map envVarName optionNames =
     [''BD_JSON'', ''BD_NO_DAEMON'', ''BD_NO_AUTO_FLUSH'', ''BD_NO_AUTO_IMPORT'', ''BD_NO_DB'',
      ''BD_DB'', ''BD_ACTOR'', ''BD_ISSUE_PREFIX'', ''BD_FLUSH_DEBOUNCE'', ''BD_AUTO_START_DAEMON'']"
  by code_simp

lemma envVarName_actor: "envVarName ''actor'' = ''BD_ACTOR''"
  by code_simp

lemma Initialize_environ: "environ (snd (Initialize X st)) = environ st"
  using Initialize_cases [of X st] by auto

lemma locateConfig_actorState:
  "locateConfig (actorState val) = Some [''proj'', ''.beads'', ''config.yaml'']"
proof -
  have "findConfigUp (actorState val) [''proj''] = Some [''proj'', ''.beads'', ''config.yaml'']"
    by (subst findConfigUp.simps)
       (simp add: filepath_Dir_def exists_path_def actorState_def projectState_def)
  then show ?thesis by (simp add: locateConfig_def actorState_def projectState_def)
qed

lemma Initialize_actorState:
  "Initialize exampleExt (actorState val)
     = (None, (actorState val)\<lparr>v_singleton :=
                 Some (initialized (Some cfgPath) [''actor'' \<mapsto> VStr ''fromfile''])\<rparr>)"
  unfolding cfgPath_def
  by (rule Initialize_file [OF locateConfig_actorState _ exampleExt_parse(2)])
     (simp add: actorState_def projectState_def)

lemma leadingInt_30s: "leadingInt 0 ''30s'' = Some (30, ''s'')"
  by (simp add: isDigit_def byte_def Let_def)

lemma parseSegments_30s: "parseSegments 0 ''30s'' = Inl 30000000000"
  by (simp add: parseSegments.simps leadingInt_30s isUnitChar_def isDigit_def byte_def
      unitMap_def)

lemma ParseDuration_30s: "ParseDuration ''30s'' = Dur 30000000000"
  by (simp add: ParseDuration_def parseSegments_30s)

lemma containsUnitLetter_30s: "containsUnitLetter ''30s''"
  by code_simp

lemma ToDuration_30s: "ToDuration (Some (VStr ''30s'')) = Some 30000000000"
  by (simp add: containsUnitLetter_30s ParseDuration_30s)

lemma locateConfig_emptyState: "locateConfig emptyState = None"
proof -
  have "findConfigUp emptyState [''tmp'', ''work''] = None"
    by (simp add: findConfigUp.simps filepath_Dir_def exists_path_def emptyState_def)
  then show ?thesis by (simp add: locateConfig_def emptyState_def)
qed

subsection \<open>A variable with an empty value reads as an unset one\<close>

lemma findConfigUp_cong:
  assumes "files st' = files st"
  shows "findConfigUp st' dir = findConfigUp st dir"
proof (induction dir rule: length_induct)
  case (1 dir)
  have e: "exists_path st' q = exists_path st q" for q
    using assms by (simp add: exists_path_def)
  show ?case
  proof (cases "dir \<noteq> filepath_Dir dir")
    case True
    then have "findConfigUp st' (filepath_Dir dir) = findConfigUp st (filepath_Dir dir)"
      using 1 filepath_Dir_shorter by blast
    then show ?thesis
      using True e
      by (subst findConfigUp.simps, subst (2) findConfigUp.simps) simp
  next
    case False
    then show ?thesis
      by (subst findConfigUp.simps, subst (2) findConfigUp.simps) simp
  qed
qed

lemma locateConfig_environ: "locateConfig (st\<lparr>environ := e\<rparr>) = locateConfig st"
proof -
  have f: "findConfigUp (st\<lparr>environ := e\<rparr>) dir = findConfigUp st dir" for dir
    by (rule findConfigUp_cong) simp
  show ?thesis
    by (simp add: locateConfig_def f exists_path_def cong: option.case_cong)
qed

lemma ReadInConfig_environ: "ReadInConfig X (st\<lparr>environ := e\<rparr>) vp = ReadInConfig X st vp"
  by (simp add: ReadInConfig_def cong: option.case_cong)

lemma Initialize_environ_update:
  "Initialize X (st\<lparr>environ := e\<rparr>)
     = (fst (Initialize X st), (snd (Initialize X st))\<lparr>environ := e\<rparr>)"
  by (auto simp: Initialize_def locateConfig_environ ReadInConfig_environ Let_def
      split: option.splits sum.splits)

lemma getEnv_empty_unset:
  assumes "env n = Some []"
  shows "getEnv vp (env(n := None)) k = getEnv vp env k"
  using assms by (simp add: getEnv_def)

lemma firstEnv_empty_unset:
  assumes "env n = Some []"
  shows "firstEnv vp (env(n := None)) ks = firstEnv vp env ks"
  using getEnv_empty_unset [of env n vp] assms
  by (induction ks) (simp_all cong: option.case_cong)

lemma viper_Get_empty_unset:
  assumes "env n = Some []"
  shows "viper_Get vp (env(n := None)) key = viper_Get vp env key"
  using getEnv_empty_unset [of env n vp] firstEnv_empty_unset [of env n vp] assms
  by (simp add: viper_Get_def find_key_def cong: option.case_cong)

lemma Get_empty_unset:
  assumes "environ st n = Some []"
  shows "Get key (snd (Initialize X (st\<lparr>environ := (environ st)(n := None)\<rparr>)))
           = Get key (snd (Initialize X st))"
    and "GetString key (snd (Initialize X (st\<lparr>environ := (environ st)(n := None)\<rparr>)))
           = GetString key (snd (Initialize X st))"
    and "GetBool key (snd (Initialize X (st\<lparr>environ := (environ st)(n := None)\<rparr>)))
           = GetBool key (snd (Initialize X st))"
proof -
  have e: "environ (snd (Initialize X st)) = environ st" by (rule Initialize_environ)
  have v: "viper_Get vp ((environ st)(n := None)) key = viper_Get vp (environ st) key" for vp
    using viper_Get_empty_unset [of "environ st" n vp key] assms by simp
  show "Get key (snd (Initialize X (st\<lparr>environ := (environ st)(n := None)\<rparr>)))
           = Get key (snd (Initialize X st))"
    by (simp add: Initialize_environ_update Get_def e v split: option.splits)
  show "GetString key (snd (Initialize X (st\<lparr>environ := (environ st)(n := None)\<rparr>)))
           = GetString key (snd (Initialize X st))"
    by (simp add: Initialize_environ_update GetString_def e v split: option.splits)
  show "GetBool key (snd (Initialize X (st\<lparr>environ := (environ st)(n := None)\<rparr>)))
           = GetBool key (snd (Initialize X st))"
    by (simp add: Initialize_environ_update GetBool_def e v split: option.splits)
qed

lemma envVarName_flush_debounce: "envVarName ''flush-debounce'' = ''BD_FLUSH_DEBOUNCE''"
  by code_simp

lemma debounceState_environ:
  "environ debounceState ''BD_FLUSH_DEBOUNCE'' = Some []"
  "environ debounceState ''BEADS_FLUSH_DEBOUNCE'' = Some ''2s''"
  by (simp_all add: debounceState_def)

lemma Initialize_debounceState:
  "Initialize debounceExt debounceState
     = (None, debounceState\<lparr>v_singleton :=
                 Some (initialized (Some cfgPath) [''flush-debounce'' \<mapsto> VStr ''7s''])\<rparr>)"
proof -
  have l: "locateConfig debounceState = Some [''proj'', ''.beads'', ''config.yaml'']"
    unfolding debounceState_def locateConfig_environ by (rule locateConfig_projectState)
  have f: "files debounceState [''proj'', ''.beads'', ''config.yaml''] = Some (File debounceConfig)"
    by (simp add: debounceState_def projectState_file)
  have p: "parseYAML debounceExt debounceConfig = Some [''flush-debounce'' \<mapsto> VStr ''7s'']"
    by (simp add: debounceExt_def)
  show ?thesis
    unfolding cfgPath_def by (rule Initialize_file [OF l f p])
qed

lemma viper_Get_debounce:
  "viper_Get (initialized cf m) (environ debounceState) ''flush-debounce'' = Some (VStr ''2s'')"
proof -
  have o: "override (initialized cf m) ''flush-debounce'' = None"
    and b: "envBindings (initialized cf m) ''flush-debounce'' = Some [''BEADS_FLUSH_DEBOUNCE'']"
    and r: "envKeyReplacer (initialized cf m) = [(CHR ''.'', CHR ''_''), (CHR ''-'', CHR ''_'')]"
    by (simp_all add: initialized_def configureViper_New)
  have a: "getEnv (initialized cf m) (environ debounceState)
             (mergeWithEnvPrefix (initialized cf m) ''flush-debounce'') = None"
    by (simp add: getEnv_initialized envVarName_flush_debounce debounceState_environ)
  have g: "getEnv (initialized cf m) (environ debounceState) ''BEADS_FLUSH_DEBOUNCE'' = Some ''2s''"
    by (simp add: getEnv_def r bound_names_plain debounceState_environ)
  show ?thesis
    by (simp add: viper_Get_def find_key_def ToLower_keys o b a g)
qed

lemma GetString_debounce:
  "GetString ''flush-debounce'' (snd (Initialize debounceExt debounceState)) = ''2s''"
  by (simp add: Initialize_debounceState GetString_def viper_Get_debounce)

section \<open>Properties of \<^verbatim>\<open>SetIssuePrefix\<close>\<close>

text \<open>
  C8. \<^verbatim>\<open>SetIssuePrefix\<close> with the empty prefix returns the validation error, in every
  state and whatever the external functions are, and it changes nothing: neither the
  working directory nor any file is looked at before the check.
\<close>

theorem SetIssuePrefix_empty_prefix:
  "SetIssuePrefix X [] st = (Some EmptyPrefix, st)"
  by (simp add: SetIssuePrefix_def)

text \<open>
  C2. A successful \<^verbatim>\<open>SetIssuePrefix(p)\<close> is idempotent: called again with the same
  prefix on the state it produced, it succeeds again and returns that very state, so
  the configuration file (and every other file) holds byte for byte what the first
  call wrote. A call that succeeds has a non-empty prefix, and the statement covers
  every content of the configuration file, every state and every print table.
\<close>

theorem SetIssuePrefix_idempotent:
  assumes "SetIssuePrefix X p st = (None, st1)"
  shows "SetIssuePrefix X p st1 = (None, st1)"
  using assms by (rule SetIssuePrefix_twice)

text \<open>
  The theorem at work on the example project whose file has a comment and another
  key: the first call puts the declaration and a blank line in front, the second call
  returns the same state.
\<close>

theorem SetIssuePrefix_idempotent_witness:
  "SetIssuePrefix plainExt ''bd'' (projectState plainConfig)
     = (None, Set ''issue-prefix'' (VStr ''bd'')
          (projectState (''issue-prefix: '' @ [dq] @ ''bd'' @ [dq] @ [nl] @ [nl] @ plainConfig)))
   \<and> SetIssuePrefix plainExt ''bd''
        (Set ''issue-prefix'' (VStr ''bd'')
          (projectState (''issue-prefix: '' @ [dq] @ ''bd'' @ [dq] @ [nl] @ [nl] @ plainConfig)))
     = (None, Set ''issue-prefix'' (VStr ''bd'')
          (projectState (''issue-prefix: '' @ [dq] @ ''bd'' @ [dq] @ [nl] @ [nl] @ plainConfig)))"
proof -
  have rw: "rewriteContent (printTable plainExt) ''bd'' plainConfig
      = ''issue-prefix: '' @ [dq] @ ''bd'' @ [dq] @ [nl] @ [nl] @ plainConfig"
    unfolding rewriteContent_no_match [OF plainConfig_not_empty plainConfig_no_match]
    by (simp add: prefixLine_plain plain_bd)
  have first: "SetIssuePrefix plainExt ''bd'' (projectState plainConfig)
      = (None, Set ''issue-prefix'' (VStr ''bd'')
           (projectState (''issue-prefix: '' @ [dq] @ ''bd'' @ [dq] @ [nl] @ [nl] @ plainConfig)))"
    using rw by (simp add: SetIssuePrefix_projectState)
  show ?thesis
    using first SetIssuePrefix_idempotent [OF first] by simp
qed

text \<open>
  C3, as amended. When \<^verbatim>\<open>SetIssuePrefix(p)\<close> succeeds in a project (a \<^verbatim>\<open>.beads\<close>
  directory was found), it changes no file other than the configuration file and the
  temporary file beside it, and the new content of the configuration file is as
  follows, \<open>prefixLine\<close> being the line \<^verbatim>\<open>issue-prefix: \<close> followed by the prefix in
  the quoting of \<^verbatim>\<open>%q\<close>:
  \<^item> if the old content has a first declaration line (no line before it is one),
    the new lines are the old lines with that one line replaced, every other line
    verbatim and in its place;
  \<^item> if the old content is not empty and has no declaration line, the new content is
    the new line, a blank line, and then the old content;
  \<^item> if the old content is empty (or the file is missing), the new content is the new
    line alone, with no blank separator: this is the case in which the claim as
    stated fails.

  For a prefix of printable ASCII without double quote and backslash, the new line is
  \<^verbatim>\<open>issue-prefix: "\<close>, the prefix, and \<^verbatim>\<open>"\<close>.
\<close>

theorem SetIssuePrefix_preserves_lines:
  assumes "SetIssuePrefix X p st = (None, st')" and "getwd st = Some cwd"
    and "findBeadsDir st cwd = Some beadsDir"
    and "content = readOrEmpty st (beadsDir @ [''config.yaml''])"
    and "content' = readOrEmpty st' (beadsDir @ [''config.yaml''])"
  shows "files st' (beadsDir @ [''config.yaml'']) = Some (File content')
    \<and> (\<forall>q. q \<noteq> beadsDir @ [''config.yaml''] \<and> q \<noteq> beadsDir @ [''config.yaml.tmp'']
           \<longrightarrow> files st' q = files st q)
    \<and> (\<forall>pre l post.
          Split content nl = pre @ l # post \<and> (\<forall>x \<in> set pre. \<not> isPrefixLine x) \<and> isPrefixLine l
          \<longrightarrow> Split content' nl = pre @ prefixLine (printTable X) p # post)
    \<and> (content \<noteq> [] \<and> (\<forall>l \<in> set (Split content nl). \<not> isPrefixLine l)
          \<longrightarrow> content' = prefixLine (printTable X) p @ [nl] @ [nl] @ content)
    \<and> (content = [] \<longrightarrow> content' = prefixLine (printTable X) p)
    \<and> ((\<forall>c \<in> set p. plain c) \<longrightarrow>
          prefixLine (printTable X) p = ''issue-prefix: '' @ [dq] @ p @ [dq])"
proof -
  have f: "files st' (beadsDir @ [''config.yaml'']) =
      Some (File (rewriteContent (printTable X) p content))"
    unfolding assms(4) using SetIssuePrefix_file_content [OF assms(1-3)] by blast
  then have c': "content' = rewriteContent (printTable X) p content"
    unfolding assms(5) by (rule readOrEmpty_File)
  have others: "\<forall>q. q \<noteq> beadsDir @ [''config.yaml''] \<and> q \<noteq> beadsDir @ [''config.yaml.tmp'']
           \<longrightarrow> files st' q = files st q"
    using SetIssuePrefix_file_content [OF assms(1-3)] by blast
  have q: "(\<forall>c \<in> set p. plain c) \<longrightarrow>
          prefixLine (printTable X) p = ''issue-prefix: '' @ [dq] @ p @ [dq]"
    using prefixLine_plain [of p "printTable X"] by blast
  show ?thesis
    using f others q
    by (simp add: c' rewriteContent_match_lines rewriteContent_no_match rewriteContent_empty)
qed

text \<open>
  The three cases on the example project: a file whose second line is the first
  declaration (and whose last line is another one), a file without a declaration,
  and the empty file.
\<close>

theorem SetIssuePrefix_preserves_lines_witness:
  "Split (readOrEmpty (snd (SetIssuePrefix plainExt ''bd'' (projectState twoPrefixConfig)))
            ([''proj'', ''.beads''] @ [''config.yaml''])) nl
     = [''# top''] @ (''issue-prefix: '' @ [dq] @ ''bd'' @ [dq])
         # [''json: true'', ''  issue-prefix: later'']
   \<and> readOrEmpty (snd (SetIssuePrefix plainExt ''bd'' (projectState plainConfig)))
            ([''proj'', ''.beads''] @ [''config.yaml''])
     = ''issue-prefix: '' @ [dq] @ ''bd'' @ [dq] @ [nl] @ [nl] @ plainConfig
   \<and> readOrEmpty (snd (SetIssuePrefix plainExt ''bd'' (projectState [])))
            ([''proj'', ''.beads''] @ [''config.yaml''])
     = ''issue-prefix: '' @ [dq] @ ''bd'' @ [dq]"
proof -
  have p: "''bd'' \<noteq> []" by simp
  have r: "readOrEmpty (projectState c) ([''proj'', ''.beads''] @ [''config.yaml'']) = c" for c
    using readOrEmpty_projectState [of c] by simp
  note t = SetIssuePrefix_preserves_lines [OF projectState_ok [OF p] projectState_getwd
      findBeadsDir_projectState r [symmetric] refl, of plainExt]
  have a: "Split (readOrEmpty (snd (SetIssuePrefix plainExt ''bd'' (projectState twoPrefixConfig)))
            ([''proj'', ''.beads''] @ [''config.yaml''])) nl
     = [''# top''] @ prefixLine (printTable plainExt) ''bd'' # [''json: true'', ''  issue-prefix: later'']"
    using t [of twoPrefixConfig] twoPrefixConfig_lines twoPrefixConfig_first twoPrefixConfig_match
    by blast
  have b: "readOrEmpty (snd (SetIssuePrefix plainExt ''bd'' (projectState plainConfig)))
            ([''proj'', ''.beads''] @ [''config.yaml''])
     = prefixLine (printTable plainExt) ''bd'' @ [nl] @ [nl] @ plainConfig"
    using t [of plainConfig] plainConfig_not_empty plainConfig_no_match by blast
  have c: "readOrEmpty (snd (SetIssuePrefix plainExt ''bd'' (projectState [])))
            ([''proj'', ''.beads''] @ [''config.yaml''])
     = prefixLine (printTable plainExt) ''bd''"
    using t [of "[]"] by blast
  show ?thesis
    using a b c by (simp add: prefixLine_plain plain_bd)
qed

text \<open>
  The claim as stated fails on the empty configuration file: no declaration exists,
  the call succeeds, and the file then holds the new line alone, not the new line
  followed by a blank separator and the old content.
\<close>

theorem SetIssuePrefix_empty_file_counterexample:
  "readOrEmpty (projectState []) cfgPath = []
   \<and> fst (SetIssuePrefix plainExt ''bd'' (projectState [])) = None
   \<and> readOrEmpty (snd (SetIssuePrefix plainExt ''bd'' (projectState []))) cfgPath
       = ''issue-prefix: '' @ [dq] @ ''bd'' @ [dq]
   \<and> readOrEmpty (snd (SetIssuePrefix plainExt ''bd'' (projectState []))) cfgPath
       \<noteq> ''issue-prefix: '' @ [dq] @ ''bd'' @ [dq] @ [nl] @ [nl] @ readOrEmpty (projectState []) cfgPath"
  by (simp add: SetIssuePrefix_projectState rewriteContent_empty prefixLine_plain plain_bd
      readOrEmpty_projectState cfgPath_def)

text \<open>
  C4. A line whose trimmed text starts with \<^verbatim>\<open>#\<close> is never taken for the
  declaration, whatever follows the \<^verbatim>\<open>#\<close>. On the file
  \<^verbatim>\<open># issue-prefix: "commented"\<close>, \<^verbatim>\<open>json: true\<close> (each line ended by a newline),
  \<^verbatim>\<open>SetIssuePrefix("active")\<close> succeeds and the file then consists of the new line
  \<^verbatim>\<open>issue-prefix: "active"\<close>, a blank line, and the old content with the comment line
  unchanged.
\<close>

theorem SetIssuePrefix_skips_commented_line:
  "(HasPrefix (TrimSpace line) ''#'' \<longrightarrow> \<not> isPrefixLine line)
   \<and> fst (SetIssuePrefix X ''active'' (projectState commentedConfig)) = None
   \<and> readOrEmpty (snd (SetIssuePrefix X ''active'' (projectState commentedConfig))) cfgPath
       = ''issue-prefix: '' @ [dq] @ ''active'' @ [dq] @ [nl] @ [nl] @ commentedConfig
   \<and> Split (readOrEmpty (snd (SetIssuePrefix X ''active'' (projectState commentedConfig))) cfgPath) nl
       = [''issue-prefix: '' @ [dq] @ ''active'' @ [dq], [],
          ''# issue-prefix: '' @ [dq] @ ''commented'' @ [dq], ''json: true'', []]"
proof -
  have rw: "rewriteContent (printTable X) ''active'' commentedConfig
      = ''issue-prefix: '' @ [dq] @ ''active'' @ [dq] @ [nl] @ [nl] @ commentedConfig"
    unfolding rewriteContent_no_match [OF commentedConfig_not_empty commentedConfig_no_match]
    by (simp add: prefixLine_plain plain_active)
  have out: "readOrEmpty (snd (SetIssuePrefix X ''active'' (projectState commentedConfig))) cfgPath
       = ''issue-prefix: '' @ [dq] @ ''active'' @ [dq] @ [nl] @ [nl] @ commentedConfig"
    using rw by (simp add: SetIssuePrefix_projectState readOrEmpty_projectState cfgPath_def)
  have lines: "Split (''issue-prefix: '' @ [dq] @ ''active'' @ [dq] @ [nl] @ [nl] @ commentedConfig) nl
       = [''issue-prefix: '' @ [dq] @ ''active'' @ [dq], [],
          ''# issue-prefix: '' @ [dq] @ ''commented'' @ [dq], ''json: true'', []]"
    by (simp add: commentedConfig_def nl_def dq_def)
  show ?thesis
    unfolding out lines by (simp add: SetIssuePrefix_projectState isPrefixLine_def)
qed

text \<open>The comment line of the example does start with \<^verbatim>\<open>#\<close> after trimming, and
  is not taken for a declaration.\<close>

theorem SetIssuePrefix_skips_commented_line_witness:
  "HasPrefix (TrimSpace (''# issue-prefix: '' @ [dq] @ ''commented'' @ [dq])) ''#''
   \<and> \<not> isPrefixLine (''# issue-prefix: '' @ [dq] @ ''commented'' @ [dq])"
proof -
  have h: "HasPrefix (TrimSpace (''# issue-prefix: '' @ [dq] @ ''commented'' @ [dq])) ''#''"
    by code_simp
  then show ?thesis
    using SetIssuePrefix_skips_commented_line
      [of "''# issue-prefix: '' @ [dq] @ ''commented'' @ [dq]" plainExt]
    by blast
qed

text \<open>
  C9. When the file has a first declaration line at index \<open>i\<close> and another
  declaration line at a later index \<open>j\<close>, a successful \<^verbatim>\<open>SetIssuePrefix(p)\<close> rewrites
  line \<open>i\<close> only: the new lines are the old ones with line \<open>i\<close> replaced, so line \<open>j\<close>
  and every other later line are verbatim what they were.
\<close>

theorem SetIssuePrefix_rewrites_first_only:
  assumes "SetIssuePrefix X p st = (None, st')" and "getwd st = Some cwd"
    and "findBeadsDir st cwd = Some beadsDir"
    and "ls = Split (readOrEmpty st (beadsDir @ [''config.yaml''])) nl"
    and "ls' = Split (readOrEmpty st' (beadsDir @ [''config.yaml''])) nl"
    and "i < j" and "j < length ls"
    and "isPrefixLine (ls ! i)" and "isPrefixLine (ls ! j)"
    and "\<forall>k<i. \<not> isPrefixLine (ls ! k)"
  shows "ls' = ls[i := prefixLine (printTable X) p] \<and> ls' ! j = ls ! j
    \<and> (\<forall>k. i < k \<and> k < length ls \<longrightarrow> ls' ! k = ls ! k)"
proof -
  let ?cfg = "beadsDir @ [''config.yaml'']"
  have i: "i < length ls" using assms(6,7) by simp
  have sp: "Split (readOrEmpty st ?cfg) nl = take i ls @ ls ! i # drop (Suc i) ls"
    using i assms(4) by (simp add: id_take_nth_drop [symmetric])
  have pre: "\<forall>x \<in> set (take i ls). \<not> isPrefixLine x"
    using assms(10) i by (intro set_take_no_match) simp_all
  have "files st' ?cfg = Some (File (rewriteContent (printTable X) p (readOrEmpty st ?cfg)))"
    using SetIssuePrefix_file_content [OF assms(1-3)] by blast
  then have "readOrEmpty st' ?cfg = rewriteContent (printTable X) p (readOrEmpty st ?cfg)"
    by (rule readOrEmpty_File)
  then have "ls' = take i ls @ prefixLine (printTable X) p # drop (Suc i) ls"
    unfolding assms(5) using rewriteContent_match_lines [OF sp pre assms(8)] by simp
  then have eq: "ls' = ls[i := prefixLine (printTable X) p]"
    using i by (simp add: upd_conv_take_nth_drop)
  then show ?thesis using assms(6) by simp
qed

text \<open>The example file has declarations on its second and fourth lines; the fourth
  is still \<^verbatim>\<open>  issue-prefix: later\<close> afterwards.\<close>

theorem SetIssuePrefix_rewrites_first_only_witness:
  "Split (readOrEmpty (snd (SetIssuePrefix plainExt ''bd'' (projectState twoPrefixConfig)))
            ([''proj'', ''.beads''] @ [''config.yaml''])) nl ! 3 = ''  issue-prefix: later''
   \<and> Split (readOrEmpty (snd (SetIssuePrefix plainExt ''bd'' (projectState twoPrefixConfig)))
            ([''proj'', ''.beads''] @ [''config.yaml''])) nl
       = [''# top'', ''issue-prefix: '' @ [dq] @ ''bd'' @ [dq], ''json: true'',
          ''  issue-prefix: later'']"
proof -
  have p: "''bd'' \<noteq> []" by simp
  have r: "readOrEmpty (projectState c) ([''proj'', ''.beads''] @ [''config.yaml'']) = c" for c
    using readOrEmpty_projectState [of c] by simp
  have ls: "[''# top'', ''issue-prefix: '' @ [dq] @ ''old'' @ [dq], ''json: true'',
             ''  issue-prefix: later'']
      = Split (readOrEmpty (projectState twoPrefixConfig) ([''proj'', ''.beads''] @ [''config.yaml''])) nl"
    unfolding r twoPrefixConfig_lines by simp
  have m1: "isPrefixLine ([''# top'', ''issue-prefix: '' @ [dq] @ ''old'' @ [dq], ''json: true'',
             ''  issue-prefix: later''] ! 1)"
    using twoPrefixConfig_match by simp
  have m3: "isPrefixLine ([''# top'', ''issue-prefix: '' @ [dq] @ ''old'' @ [dq], ''json: true'',
             ''  issue-prefix: later''] ! 3)"
    using twoPrefixConfig_later by (simp add: numeral_3_eq_3)
  have m0: "\<forall>k<1. \<not> isPrefixLine ([''# top'', ''issue-prefix: '' @ [dq] @ ''old'' @ [dq],
             ''json: true'', ''  issue-prefix: later''] ! k)"
    using twoPrefixConfig_first by simp
  have lt: "(1::nat) < 3" "(3::nat) < length [''# top'', ''issue-prefix: '' @ [dq] @ ''old'' @ [dq],
             ''json: true'', ''  issue-prefix: later'']"
    by simp_all
  show ?thesis
    using SetIssuePrefix_rewrites_first_only [OF projectState_ok [OF p] projectState_getwd
        findBeadsDir_projectState ls refl lt m1 m3 m0, of plainExt]
    by (simp add: prefixLine_plain plain_bd numeral_3_eq_3)
qed

text \<open>
  C10. When \<^verbatim>\<open>SetIssuePrefix\<close> returns an error (the empty prefix, no working
  directory, a refused write of the temporary file, a refused rename), the singleton
  is what it was, and so is the issue prefix it resolves. In a working directory with
  no \<^verbatim>\<open>.beads\<close> directory above it, a non-empty prefix is set in memory and the call
  succeeds.
\<close>

theorem SetIssuePrefix_error_keeps_memory:
  "(SetIssuePrefix X p st = (Some e, st') \<longrightarrow>
      v_singleton st' = v_singleton st \<and> GetIssuePrefix st' = GetIssuePrefix st)
   \<and> (p \<noteq> [] \<and> getwd st = Some cwd \<and> findBeadsDir st cwd = None \<longrightarrow>
      SetIssuePrefix X p st = (None, Set ''issue-prefix'' (VStr p) st))"
proof -
  have "v_singleton st' = v_singleton st \<and> GetIssuePrefix st' = GetIssuePrefix st"
    if "SetIssuePrefix X p st = (Some e, st')"
    using SetIssuePrefix_error_memory [OF that]
    by (auto simp: GetIssuePrefix_def GetString_def split: option.splits)
  then show ?thesis by (simp add: SetIssuePrefix_def)
qed

text \<open>
  A refused write in the example project leaves the resolved prefix \<^verbatim>\<open>old\<close>; without
  a \<^verbatim>\<open>.beads\<close> directory the call succeeds and the prefix is the new one.
\<close>

theorem SetIssuePrefix_error_keeps_memory_witness:
  "SetIssuePrefix plainExt ''new'' failingState = (Some WriteTempFailed, failingState)
   \<and> GetIssuePrefix failingState = ''old''
   \<and> GetIssuePrefix (snd (SetIssuePrefix plainExt ''new'' failingState)) = ''old''
   \<and> fst (SetIssuePrefix plainExt ''new'' emptyState) = None
   \<and> GetIssuePrefix (snd (SetIssuePrefix plainExt ''new'' emptyState)) = ''new''"
proof -
  have a: "GetIssuePrefix (snd (SetIssuePrefix plainExt ''new'' failingState)) = ''old''"
    using SetIssuePrefix_error_keeps_memory
      [of plainExt "''new''" failingState WriteTempFailed failingState]
      failingState_fails failingState_prefix
    by simp
  have g: "getwd emptyState = Some [''tmp'', ''work'']" by (simp add: emptyState_def)
  have "SetIssuePrefix plainExt ''new'' emptyState
      = (None, Set ''issue-prefix'' (VStr ''new'') emptyState)"
    using SetIssuePrefix_error_keeps_memory
      [of plainExt "''new''" emptyState _ _ "[''tmp'', ''work'']"]
      g emptyState_no_beads
    by simp
  moreover have "GetIssuePrefix (Set ''issue-prefix'' (VStr ''new'') emptyState) = ''new''"
    by (rule GetIssuePrefix_Set) (simp add: emptyState_def)
  ultimately show ?thesis
    using a failingState_fails failingState_prefix by simp
qed

section \<open>Properties of \<^verbatim>\<open>MigrateConfigToYAML\<close>\<close>

text \<open>
  C1. In every state in which the configuration resolves a non-empty issue prefix,
  \<^verbatim>\<open>MigrateConfigToYAML\<close> returns success at once and the state it returns is the
  state it was given: no file is written, whatever the database holds and whatever the
  external functions are.
\<close>

theorem MigrateConfigToYAML_keeps_existing_prefix:
  assumes "GetIssuePrefix st \<noteq> []"
  shows "MigrateConfigToYAML X d st = (None, st)"
  using assms by (simp add: MigrateConfigToYAML_def)

text \<open>
  The example of the claim: the configuration file declares \<^verbatim>\<open>issue-prefix: "existing"\<close>,
  \<^verbatim>\<open>Initialize\<close> has read it, and the database holds \<^verbatim>\<open>db-prefix\<close>. The migration
  returns the same state, and the file still has its content.
\<close>

theorem MigrateConfigToYAML_keeps_existing_prefix_witness:
  "fst (Initialize exampleExt (projectState existingConfig)) = None
   \<and> GetIssuePrefix existingState = ''existing''
   \<and> selectConfigIssuePrefix legacyDb = Row ''db-prefix''
   \<and> MigrateConfigToYAML exampleExt legacyDb existingState = (None, existingState)
   \<and> readOrEmpty existingState cfgPath = existingConfig"
proof -
  have "GetIssuePrefix existingState \<noteq> []" by (simp add: existingState_prefix)
  then have "MigrateConfigToYAML exampleExt legacyDb existingState = (None, existingState)"
    by (rule MigrateConfigToYAML_keeps_existing_prefix)
  then show ?thesis
    by (simp add: existingState_eq existingState_prefix existingState_file legacyDb_def)
qed

text \<open>
  C5. \<^verbatim>\<open>MigrateConfigToYAML\<close> returns the error \<open>e\<close> exactly when it runs a query that
  fails with \<open>e\<close>, an error other than "no rows": the configuration resolves no prefix
  and either the query for the legacy setting fails with \<open>e\<close>, or that query gives no
  row (or an empty value) and the query for the earliest issue fails with \<open>e\<close>. When
  both queries give no row, the result is success with the state unchanged. When the
  legacy setting is a non-empty prefix, the result is success with the state that
  \<^verbatim>\<open>SetIssuePrefix\<close> leaves, whether that call succeeded or not.
\<close>

theorem MigrateConfigToYAML_error_iff:
  "(fst (MigrateConfigToYAML X d st) = Some e \<longleftrightarrow>
      GetIssuePrefix st = [] \<and>
      (selectConfigIssuePrefix d = ScanError e \<or>
       (selectConfigIssuePrefix d = ErrNoRows \<or> selectConfigIssuePrefix d = Row []) \<and>
       selectFirstIssueID d = ScanError e))
   \<and> (GetIssuePrefix st = [] \<and> selectConfigIssuePrefix d = ErrNoRows \<and>
        selectFirstIssueID d = ErrNoRows \<longrightarrow> MigrateConfigToYAML X d st = (None, st))
   \<and> (GetIssuePrefix st = [] \<and> selectConfigIssuePrefix d = Row p \<and> p \<noteq> [] \<longrightarrow>
        MigrateConfigToYAML X d st = (None, snd (SetIssuePrefix X p st)))"
proof -
  have a: "fst (MigrateConfigToYAML X d st) = Some e \<longleftrightarrow>
      GetIssuePrefix st = [] \<and>
      (selectConfigIssuePrefix d = ScanError e \<or>
       (selectConfigIssuePrefix d = ErrNoRows \<or> selectConfigIssuePrefix d = Row []) \<and>
       selectFirstIssueID d = ScanError e)"
  proof (cases "GetIssuePrefix st = []")
    case False
    then show ?thesis by (simp add: MigrateConfigToYAML_def)
  next
    case True
    show ?thesis
    proof (cases "selectConfigIssuePrefix d")
      case (Row val)
      show ?thesis
      proof (cases "val = []")
        case e: True
        show ?thesis
          using True Row e
          by (cases "selectFirstIssueID d")
             (auto simp: MigrateConfigToYAML_def scanned_def Let_def migratePrefix_no_error)
      next
        case False
        with True Row show ?thesis
          by (simp add: MigrateConfigToYAML_def scanned_def migratePrefix_no_error)
      qed
    next
      case ErrNoRows
      with True show ?thesis
        by (cases "selectFirstIssueID d")
           (auto simp: MigrateConfigToYAML_def scanned_def Let_def migratePrefix_no_error)
    next
      case (ScanError err)
      with True show ?thesis by (auto simp: MigrateConfigToYAML_def)
    qed
  qed
  have b: "GetIssuePrefix st = [] \<and> selectConfigIssuePrefix d = ErrNoRows \<and>
        selectFirstIssueID d = ErrNoRows \<longrightarrow> MigrateConfigToYAML X d st = (None, st)"
    by (simp add: MigrateConfigToYAML_def scanned_def migratePrefix_def)
  have c: "GetIssuePrefix st = [] \<and> selectConfigIssuePrefix d = Row p \<and> p \<noteq> [] \<longrightarrow>
        MigrateConfigToYAML X d st = (None, snd (SetIssuePrefix X p st))"
    by (simp add: MigrateConfigToYAML_def scanned_def migratePrefix_state)
  from a b c show ?thesis by blast
qed

text \<open>
  A failing first query and a failing second query give the query's error; no rows
  at all give success and the same state; in the project where every write is refused,
  \<^verbatim>\<open>SetIssuePrefix\<close> fails and the migration still succeeds.
\<close>

theorem MigrateConfigToYAML_error_iff_witness:
  "fst (MigrateConfigToYAML exampleExt lockedDb emptyState)
      = Some (QueryFailed ''database is locked'')
   \<and> fst (MigrateConfigToYAML exampleExt lockedIssuesDb emptyState)
      = Some (QueryFailed ''database is locked'')
   \<and> MigrateConfigToYAML exampleExt emptyDb emptyState = (None, emptyState)
   \<and> fst (SetIssuePrefix exampleExt ''bd'' readOnlyState) = Some WriteTempFailed
   \<and> MigrateConfigToYAML exampleExt bdDb readOnlyState = (None, readOnlyState)"
proof -
  note t = MigrateConfigToYAML_error_iff
  have a: "fst (MigrateConfigToYAML exampleExt lockedDb emptyState)
      = Some (QueryFailed ''database is locked'')"
    using t [of exampleExt lockedDb emptyState "QueryFailed ''database is locked''"]
      emptyState_prefix
    by (simp add: lockedDb_def)
  have b: "fst (MigrateConfigToYAML exampleExt lockedIssuesDb emptyState)
      = Some (QueryFailed ''database is locked'')"
    using t [of exampleExt lockedIssuesDb emptyState "QueryFailed ''database is locked''"]
      emptyState_prefix
    by (simp add: lockedIssuesDb_def)
  have c: "MigrateConfigToYAML exampleExt emptyDb emptyState = (None, emptyState)"
    using t [of exampleExt emptyDb emptyState] emptyState_prefix
    by (simp add: emptyDb_def)
  have d: "MigrateConfigToYAML exampleExt bdDb readOnlyState = (None, readOnlyState)"
    using t [of exampleExt bdDb readOnlyState _ "''bd''"] readOnlyState_prefix
      readOnlyState_fails [of exampleExt]
    by (simp add: bdDb_def)
  show ?thesis
    using a b c d readOnlyState_fails [of exampleExt] by simp
qed

section \<open>Properties of \<^verbatim>\<open>Initialize\<close>\<close>

text \<open>
  C6, as amended. For every named option \<open>K\<close>:
  \<^item> for every non-empty value, if the variable \<^verbatim>\<open>BD_<K>\<close> holds the value when the
    option is read, then after \<^verbatim>\<open>Initialize\<close> (whether or not a configuration file
    was found, and whatever it declares) the option resolves to that value: \<^verbatim>\<open>Get\<close>
    gives the string, \<^verbatim>\<open>GetString\<close> gives it unchanged, and \<^verbatim>\<open>GetBool\<close> gives its
    conversion;
  \<^item> if \<^verbatim>\<open>BD_<K>\<close> holds the empty string, it counts as unset: after \<^verbatim>\<open>Initialize\<close>
    the option resolves exactly as it does when \<^verbatim>\<open>BD_<K>\<close> is removed from the
    environment, through whatever comes next (a bound legacy variable, the
    configuration file, the default).
\<close>

theorem Initialize_env_precedence:
  assumes "K \<in> set optionNames"
  shows "(environ st (envVarName K) = Some val \<and> val \<noteq> [] \<longrightarrow>
            Get K (snd (Initialize X st)) = Some (VStr val)
          \<and> GetString K (snd (Initialize X st)) = val
          \<and> GetBool K (snd (Initialize X st)) = ToBool (Some (VStr val)))
    \<and> (environ st (envVarName K) = Some [] \<longrightarrow>
            Get K (snd (Initialize X st))
              = Get K (snd (Initialize X (st\<lparr>environ := (environ st)(envVarName K := None)\<rparr>)))
          \<and> GetString K (snd (Initialize X st))
              = GetString K (snd (Initialize X (st\<lparr>environ := (environ st)(envVarName K := None)\<rparr>)))
          \<and> GetBool K (snd (Initialize X st))
              = GetBool K (snd (Initialize X (st\<lparr>environ := (environ st)(envVarName K := None)\<rparr>))))"
proof -
  obtain cf m where st': "snd (Initialize X st) = st\<lparr>v_singleton := Some (initialized cf m)\<rparr>"
    using Initialize_cases [of X st] by blast
  have set_case: "Get K (snd (Initialize X st)) = Some (VStr val)
          \<and> GetString K (snd (Initialize X st)) = val
          \<and> GetBool K (snd (Initialize X st)) = ToBool (Some (VStr val))"
    if "environ st (envVarName K) = Some val" and "val \<noteq> []"
  proof -
    have "viper_Get (initialized cf m) (environ st) K = Some (VStr val)"
      using optionNames_lower [OF assms] that by (rule viper_Get_env)
    then show ?thesis
      unfolding st' by (simp add: Get_def GetString_def GetBool_def)
  qed
  have empty_case: "Get K (snd (Initialize X st))
              = Get K (snd (Initialize X (st\<lparr>environ := (environ st)(envVarName K := None)\<rparr>)))
          \<and> GetString K (snd (Initialize X st))
              = GetString K (snd (Initialize X (st\<lparr>environ := (environ st)(envVarName K := None)\<rparr>)))
          \<and> GetBool K (snd (Initialize X st))
              = GetBool K (snd (Initialize X (st\<lparr>environ := (environ st)(envVarName K := None)\<rparr>)))"
    if "environ st (envVarName K) = Some []"
    using Get_empty_unset [OF that, of K X] by simp
  from set_case empty_case show ?thesis by blast
qed

text \<open>
  The file declares \<^verbatim>\<open>actor: fromfile\<close> and \<^verbatim>\<open>BD_ACTOR\<close> is \<^verbatim>\<open>envuser\<close>: the actor
  resolves to \<^verbatim>\<open>envuser\<close>. The file declares a debounce of seven seconds,
  \<^verbatim>\<open>BD_FLUSH_DEBOUNCE\<close> is empty and \<^verbatim>\<open>BEADS_FLUSH_DEBOUNCE\<close> is two seconds: the
  debounce resolves to two seconds, with the empty variable and without it.
\<close>

theorem Initialize_env_precedence_witness:
  "environ (actorState ''envuser'') (envVarName ''actor'') = Some ''envuser''
   \<and> fst (Initialize exampleExt (actorState ''envuser'')) = None
   \<and> config (the (v_singleton (snd (Initialize exampleExt (actorState ''envuser''))))) ''actor''
        = Some (VStr ''fromfile'')
   \<and> GetString ''actor'' (snd (Initialize exampleExt (actorState ''envuser''))) = ''envuser''
   \<and> environ debounceState (envVarName ''flush-debounce'') = Some []
   \<and> GetString ''flush-debounce'' (snd (Initialize debounceExt debounceState)) = ''2s''
   \<and> GetString ''flush-debounce''
        (snd (Initialize debounceExt
           (debounceState\<lparr>environ := (environ debounceState)(envVarName ''flush-debounce'' := None)\<rparr>)))
        = ''2s''"
proof -
  have k: "''actor'' \<in> set optionNames" "''flush-debounce'' \<in> set optionNames"
    by (simp_all add: optionNames_def)
  have e: "environ (actorState ''envuser'') (envVarName ''actor'') = Some ''envuser''"
    by (simp add: envVarName_actor actorState_def)
  have c: "config (initialized (Some cfgPath) [''actor'' \<mapsto> VStr ''fromfile'']) ''actor''
      = Some (VStr ''fromfile'')"
    by (simp add: initialized_def)
  have a: "GetString ''actor'' (snd (Initialize exampleExt (actorState ''envuser''))) = ''envuser''"
    using Initialize_env_precedence [OF k(1), of "actorState ''envuser''" "''envuser''" exampleExt] e
    by simp
  have d: "environ debounceState (envVarName ''flush-debounce'') = Some []"
    by (simp add: envVarName_flush_debounce debounceState_environ)
  have b: "GetString ''flush-debounce''
        (snd (Initialize debounceExt
           (debounceState\<lparr>environ := (environ debounceState)(envVarName ''flush-debounce'' := None)\<rparr>)))
        = ''2s''"
    using Initialize_env_precedence [OF k(2), of debounceState _ debounceExt] d GetString_debounce
    by simp
  show ?thesis
    using a b d e c GetString_debounce by (simp add: Initialize_actorState)
qed

text \<open>
  The claim as stated fails for the empty value: with \<^verbatim>\<open>BD_ACTOR\<close> set to the empty
  string and a file that declares \<^verbatim>\<open>actor: fromfile\<close>, the actor resolves to
  \<^verbatim>\<open>fromfile\<close>, not to the empty string.
\<close>

theorem Initialize_empty_env_counterexample:
  "environ (actorState []) ''BD_ACTOR'' = Some []
   \<and> fst (Initialize exampleExt (actorState [])) = None
   \<and> GetString ''actor'' (snd (Initialize exampleExt (actorState []))) = ''fromfile''
   \<and> GetString ''actor'' (snd (Initialize exampleExt (actorState []))) \<noteq> []"
proof -
  have e: "environ (actorState []) (envVarName ''actor'') = Some []"
    by (simp add: envVarName_actor actorState_def)
  have o: "environ (actorState []) ''BEADS_FLUSH_DEBOUNCE'' = None"
    "environ (actorState []) ''BEADS_AUTO_START_DAEMON'' = None"
    by (simp_all add: actorState_def)
  have "viper_Get (initialized (Some cfgPath) [''actor'' \<mapsto> VStr ''fromfile''])
          (environ (actorState [])) ''actor'' = Some (VStr ''fromfile'')"
    using e o by (subst viper_Get_no_env) (simp_all add: ToLower_keys)
  then have g: "GetString ''actor'' (snd (Initialize exampleExt (actorState []))) = ''fromfile''"
    by (simp add: Initialize_actorState GetString_def)
  have i: "fst (Initialize exampleExt (actorState [])) = None"
    by (simp add: Initialize_actorState)
  have b: "environ (actorState []) ''BD_ACTOR'' = Some []"
    by (simp add: actorState_def)
  show ?thesis
    using g i b by simp
qed

text \<open>
  C7. When no configuration file is found in any of the three places and none of the
  variables \<^verbatim>\<open>BD_<K>\<close>, \<^verbatim>\<open>BEADS_FLUSH_DEBOUNCE\<close>, \<^verbatim>\<open>BEADS_AUTO_START_DAEMON\<close> is
  set, \<^verbatim>\<open>Initialize\<close> succeeds and every key of the default table resolves to its
  default: the five flags are false, the three strings are empty, the debounce is the
  string \<^verbatim>\<open>30s\<close>, which \<^verbatim>\<open>GetDuration\<close> reads as thirty seconds (in nanoseconds), and
  \<^verbatim>\<open>auto-start-daemon\<close> is true.
\<close>

theorem Initialize_defaults:
  assumes "locateConfig st = None"
    and "\<forall>K \<in> set optionNames. environ st (envVarName K) = None"
    and "environ st ''BEADS_FLUSH_DEBOUNCE'' = None"
    and "environ st ''BEADS_AUTO_START_DAEMON'' = None"
    and "st' = snd (Initialize X st)"
  shows "fst (Initialize X st) = None
    \<and> GetBool ''json'' st' = False
    \<and> GetBool ''no-daemon'' st' = False
    \<and> GetBool ''no-auto-flush'' st' = False
    \<and> GetBool ''no-auto-import'' st' = False
    \<and> GetBool ''no-db'' st' = False
    \<and> GetString ''db'' st' = []
    \<and> GetString ''actor'' st' = []
    \<and> GetString ''issue-prefix'' st' = []
    \<and> Get ''flush-debounce'' st' = Some (VStr ''30s'')
    \<and> GetDuration ''flush-debounce'' st' = Some 30000000000
    \<and> GetBool ''auto-start-daemon'' st' = True"
proof -
  have st': "st' = st\<lparr>v_singleton := Some (initialized None Map.empty)\<rparr>"
    unfolding assms(5) by (simp add: Initialize_no_file [OF assms(1)])
  have g: "viper_Get (initialized None Map.empty) (environ st) K = defaultTable K"
    if "K \<in> set optionNames" for K
    using optionNames_lower [OF that] assms(2-4) that
    by (subst viper_Get_no_env) simp_all
  have k: "''json'' \<in> set optionNames" "''no-daemon'' \<in> set optionNames"
    "''no-auto-flush'' \<in> set optionNames" "''no-auto-import'' \<in> set optionNames"
    "''no-db'' \<in> set optionNames" "''db'' \<in> set optionNames" "''actor'' \<in> set optionNames"
    "''issue-prefix'' \<in> set optionNames" "''flush-debounce'' \<in> set optionNames"
    "''auto-start-daemon'' \<in> set optionNames"
    by (simp_all add: optionNames_def)
  have d: "defaultTable ''json'' = Some (VBool False)" "defaultTable ''no-daemon'' = Some (VBool False)"
    "defaultTable ''no-auto-flush'' = Some (VBool False)"
    "defaultTable ''no-auto-import'' = Some (VBool False)"
    "defaultTable ''no-db'' = Some (VBool False)" "defaultTable ''db'' = Some (VStr [])"
    "defaultTable ''actor'' = Some (VStr [])" "defaultTable ''issue-prefix'' = Some (VStr [])"
    "defaultTable ''flush-debounce'' = Some (VStr ''30s'')"
    "defaultTable ''auto-start-daemon'' = Some (VBool True)"
    by (simp_all add: defaultTable_def)
  have "fst (Initialize X st) = None"
    by (simp add: Initialize_no_file [OF assms(1)])
  then show ?thesis
    unfolding st'
    by (simp add: Get_def GetBool_def GetString_def GetDuration_def g [OF k(1)] g [OF k(2)]
        g [OF k(3)] g [OF k(4)] g [OF k(5)] g [OF k(6)] g [OF k(7)] g [OF k(8)] g [OF k(9)]
        g [OF k(10)] d ToDuration_30s del: ToDuration.simps)
qed

text \<open>A working directory without any configuration file and an empty environment.\<close>

theorem Initialize_defaults_witness:
  "locateConfig emptyState = None
   \<and> fst (Initialize plainExt emptyState) = None
   \<and> GetBool ''json'' (snd (Initialize plainExt emptyState)) = False
   \<and> GetString ''issue-prefix'' (snd (Initialize plainExt emptyState)) = []
   \<and> GetDuration ''flush-debounce'' (snd (Initialize plainExt emptyState)) = Some 30000000000
   \<and> GetBool ''auto-start-daemon'' (snd (Initialize plainExt emptyState)) = True"
proof -
  have e: "\<forall>K \<in> set optionNames. environ emptyState (envVarName K) = None"
    "environ emptyState ''BEADS_FLUSH_DEBOUNCE'' = None"
    "environ emptyState ''BEADS_AUTO_START_DAEMON'' = None"
    by (simp_all add: emptyState_def)
  show ?thesis
    using Initialize_defaults [OF locateConfig_emptyState e refl, of plainExt]
      locateConfig_emptyState
    by simp
qed

end
